theory Spec2Isabelle
  imports Complex_Main
begin

section \<open>Python values\<close>

text \<open>
  The parser works on whatever \<^verbatim>\<open>json.loads\<close> returns and the database layer on
  plain dictionaries, so both are modelled over one datatype of dynamically typed values.
  A dictionary is an association list in iteration order (Python dictionaries keep insertion
  order and have distinct keys). Floats only matter through their truth value, so a float
  carries its rational value or one of the three special values \<^verbatim>\<open>json.loads\<close>
  accepts. The last two constructors are the values only the database layer produces.
\<close>

datatype pyfloat = Finite rat | PosInf | NegInf | NaN

datatype pyval =
    PNone
  | PBool bool
  | PInt int
  | PFloat pyfloat
  | PStr string
  | PList "pyval list"
  | PDict "(string \<times> pyval) list"
  | PDatetime int
  | PObjectId string

type_synonym pydict = "(string \<times> pyval) list"

datatype error =
    TypeError
  | AttributeError
  | ValidationError
  | ValueError
  | InvalidId
  | WriteError
  | OperationFailure

text \<open>\<^verbatim>\<open>k in d\<close>, \<^verbatim>\<open>d.get(k)\<close> / \<^verbatim>\<open>d[k]\<close>, \<^verbatim>\<open>d[k] = v\<close> and the removal
  done by \<^verbatim>\<open>d.pop(k, default)\<close>.\<close>

fun dict_get :: "pydict \<Rightarrow> string \<Rightarrow> pyval option" where
  "dict_get [] k = None"
| "dict_get ((k', v) # kvs) k = (if k' = k then Some v else dict_get kvs k)"

fun dict_set :: "pydict \<Rightarrow> string \<Rightarrow> pyval \<Rightarrow> pydict" where
  "dict_set [] k v = [(k, v)]"
| "dict_set ((k', v') # kvs) k v =
     (if k' = k then (k, v) # kvs else (k', v') # dict_set kvs k v)"

fun dict_del :: "pydict \<Rightarrow> string \<Rightarrow> pydict" where
  "dict_del [] k = []"
| "dict_del ((k', v') # kvs) k = (if k' = k then dict_del kvs k else (k', v') # dict_del kvs k)"

text \<open>Python truth value testing, as used by \<^verbatim>\<open>if dates_data:\<close> and \<^verbatim>\<open>if style:\<close>.\<close>

fun truthy :: "pyval \<Rightarrow> bool" where
  "truthy PNone = False"
| "truthy (PBool b) = b"
| "truthy (PInt i) = (i \<noteq> 0)"
| "truthy (PFloat f) = (f \<noteq> Finite 0)"
| "truthy (PStr s) = (s \<noteq> [])"
| "truthy (PList xs) = (xs \<noteq> [])"
| "truthy (PDict kvs) = (kvs \<noteq> [])"
| "truthy (PDatetime t) = True"
| "truthy (PObjectId i) = True"

text \<open>\<^verbatim>\<open>len(x)\<close> is defined on strings, lists and dictionaries and raises TypeError on
  the other values.\<close>

fun py_len :: "pyval \<Rightarrow> error + nat" where
  "py_len (PStr s) = Inr (length s)"
| "py_len (PList xs) = Inr (length xs)"
| "py_len (PDict kvs) = Inr (length kvs)"
| "py_len v = Inl TypeError"

text \<open>\<^verbatim>\<open>for x in v\<close> on the values that have a length: the elements of a list, the
  keys of a dictionary, the one-character strings of a string.\<close>

fun py_iter :: "pyval \<Rightarrow> pyval list" where
  "py_iter (PList xs) = xs"
| "py_iter (PDict kvs) = map (\<lambda>kv. PStr (fst kv)) kvs"
| "py_iter (PStr s) = map (\<lambda>c. PStr [c]) s"
| "py_iter v = []"

section \<open>parser.py: normalising the oracle's reply\<close>

text \<open>
  \<^verbatim>\<open>extract_production_data\<close> from the point where the reply has been parsed
  (\<^verbatim>\<open>parsed_data = json.loads(result)\<close>). The \<^verbatim>\<open>for ... else\<close> loop over
  \<^verbatim>\<open>parsed_data.values()\<close> is \<open>first_list\<close>.
\<close>

fun first_list :: "pyval list \<Rightarrow> pyval option" where
  "first_list [] = None"
| "first_list (PList xs # vs) = Some (PList xs)"
| "first_list (v # vs) = first_list vs"

definition select_items :: "pyval \<Rightarrow> pyval" where
  "select_items parsed_data =
     (case parsed_data of
        PDict d \<Rightarrow>
          (case dict_get d ''items'' of
             Some v \<Rightarrow> v
           | None \<Rightarrow>
              (case dict_get d ''production_items'' of
                 Some v \<Rightarrow> v
               | None \<Rightarrow>
                  (case first_list (map snd d) of
                     Some v \<Rightarrow> v
                   | None \<Rightarrow> PList [parsed_data])))
      | _ \<Rightarrow> parsed_data)"

text \<open>The log line \<^verbatim>\<open>len(items)\<close> sits between the selection and the return, so a
  selected value without a length makes the function raise.\<close>

definition extract_production_data :: "pyval \<Rightarrow> error + pyval" where
  "extract_production_data parsed_data =
     (let items = select_items parsed_data
      in case py_len items of Inl e \<Rightarrow> Inl e | Inr n \<Rightarrow> Inr items)"

section \<open>models.py: the validated records\<close>

text \<open>
  A pydantic model is a record of its fields together with the names of the fields that
  were passed to the constructor (\<^verbatim>\<open>model_fields_set\<close>), which
  \<^verbatim>\<open>model_dump(exclude_unset=True)\<close> reads.
\<close>

record ProductionDates =
  d_fabric :: "string option"
  d_cutting :: "string option"
  d_sewing :: "string option"
  d_finishing :: "string option"
  d_packing :: "string option"
  d_shipping :: "string option"
  d_delivery :: "string option"
  other_milestones :: "(string \<times> string) list option"
  d_fields_set :: "string list"

record ProductionItemCreate =
  order_number :: "string option"
  style :: "string option"
  fabric :: "string option"
  color :: "string option"
  quantity :: "int option"
  status :: "string option"
  dates :: "ProductionDates option"
  source_file :: "string option"
  additional_data :: "pydict option"
  fields_set :: "string list"

text \<open>Field validation. An \<^verbatim>\<open>Optional[str]\<close> field takes None and strings; an
  \<^verbatim>\<open>Optional[Dict[str, Any]]\<close> field takes None and dictionaries, whose values are
  kept as they are; an \<^verbatim>\<open>Optional[Dict[str, str]]\<close> field takes None and
  dictionaries of strings. Anything else is a validation error.\<close>

fun validate_opt_str :: "pyval \<Rightarrow> error + string option" where
  "validate_opt_str PNone = Inr None"
| "validate_opt_str (PStr s) = Inr (Some s)"
| "validate_opt_str v = Inl ValidationError"

fun validate_opt_dict :: "pyval \<Rightarrow> error + pydict option" where
  "validate_opt_dict PNone = Inr None"
| "validate_opt_dict (PDict d) = Inr (Some d)"
| "validate_opt_dict v = Inl ValidationError"

fun str_values :: "pydict \<Rightarrow> (string \<times> string) list option" where
  "str_values [] = Some []"
| "str_values ((k, PStr s) # kvs) =
     (case str_values kvs of None \<Rightarrow> None | Some r \<Rightarrow> Some ((k, s) # r))"
| "str_values (kv # kvs) = None"

fun validate_opt_str_dict :: "pyval \<Rightarrow> error + (string \<times> string) list option" where
  "validate_opt_str_dict PNone = Inr None"
| "validate_opt_str_dict (PDict d) =
     (case str_values d of None \<Rightarrow> Inl ValidationError | Some r \<Rightarrow> Inr (Some r))"
| "validate_opt_str_dict v = Inl ValidationError"

text \<open>A field that was not passed keeps its default.\<close>

definition field_or :: "(pyval \<Rightarrow> error + 'a) \<Rightarrow> 'a \<Rightarrow> pyval option \<Rightarrow> error + 'a" where
  "field_or validate dflt arg = (case arg of None \<Rightarrow> Inr dflt | Some v \<Rightarrow> validate v)"

definition bind_err :: "error + 'a \<Rightarrow> ('a \<Rightarrow> error + 'b) \<Rightarrow> error + 'b" where
  "bind_err m f = (case m of Inl e \<Rightarrow> Inl e | Inr x \<Rightarrow> f x)"

definition dates_field_names :: "string list" where
  "dates_field_names =
     [''fabric'', ''cutting'', ''sewing'', ''finishing'', ''packing'', ''shipping'',
      ''delivery'', ''other_milestones'']"

text \<open>\<^verbatim>\<open>ProductionDates()\<close>: every date None, \<^verbatim>\<open>other_milestones\<close> the empty
  dictionary of its \<^verbatim>\<open>default_factory\<close>, no field set.\<close>

definition empty_dates :: ProductionDates where
  "empty_dates =
     \<lparr>d_fabric = None, d_cutting = None, d_sewing = None, d_finishing = None,
      d_packing = None, d_shipping = None, d_delivery = None,
      other_milestones = Some [], d_fields_set = []\<rparr>"

text \<open>\<^verbatim>\<open>ProductionDates(**kw)\<close> for a dictionary \<open>kw\<close>: keys that are not fields are
  ignored (the model keeps pydantic's default for extra keys).\<close>

definition ProductionDates_init :: "pydict \<Rightarrow> error + ProductionDates" where
  "ProductionDates_init kw =
     bind_err (field_or validate_opt_str None (dict_get kw ''fabric'')) (\<lambda>f.
     bind_err (field_or validate_opt_str None (dict_get kw ''cutting'')) (\<lambda>c.
     bind_err (field_or validate_opt_str None (dict_get kw ''sewing'')) (\<lambda>s.
     bind_err (field_or validate_opt_str None (dict_get kw ''finishing'')) (\<lambda>fi.
     bind_err (field_or validate_opt_str None (dict_get kw ''packing'')) (\<lambda>p.
     bind_err (field_or validate_opt_str None (dict_get kw ''shipping'')) (\<lambda>sh.
     bind_err (field_or validate_opt_str None (dict_get kw ''delivery'')) (\<lambda>de.
     bind_err (field_or validate_opt_str_dict (Some []) (dict_get kw ''other_milestones'')) (\<lambda>om.
       Inr \<lparr>d_fabric = f, d_cutting = c, d_sewing = s, d_finishing = fi,
            d_packing = p, d_shipping = sh, d_delivery = de,
            other_milestones = om,
            d_fields_set = filter (\<lambda>n. dict_get kw n \<noteq> None) dates_field_names\<rparr>))))))))"

definition item_field_names :: "string list" where
  "item_field_names =
     [''order_number'', ''style'', ''fabric'', ''color'', ''quantity'', ''status'', ''dates'',
      ''source_file'', ''additional_data'']"

text \<open>
  \<^verbatim>\<open>ProductionItemCreate(order_number=.., ..., additional_data=..)\<close> with all nine
  keyword arguments, as the parser calls it. \<^verbatim>\<open>dates\<close> is already a model instance
  and \<^verbatim>\<open>source_file\<close> a string. The coercion pydantic applies to an
  \<^verbatim>\<open>Optional[int]\<close> field is the library's own; it is the parameter \<open>vint\<close>.
\<close>

definition ProductionItemCreate_init ::
  "(pyval \<Rightarrow> error + int option) \<Rightarrow> pyval \<Rightarrow> pyval \<Rightarrow> pyval \<Rightarrow> pyval \<Rightarrow> pyval \<Rightarrow> pyval \<Rightarrow>
   ProductionDates \<Rightarrow> string \<Rightarrow> pyval \<Rightarrow> error + ProductionItemCreate" where
  "ProductionItemCreate_init vint a_order a_style a_fabric a_color a_quantity a_status
      a_dates a_source a_additional =
     bind_err (validate_opt_str a_order) (\<lambda>ord.
     bind_err (validate_opt_str a_style) (\<lambda>sty.
     bind_err (validate_opt_str a_fabric) (\<lambda>fab.
     bind_err (validate_opt_str a_color) (\<lambda>col.
     bind_err (vint a_quantity) (\<lambda>qty.
     bind_err (validate_opt_str a_status) (\<lambda>sta.
     bind_err (validate_opt_dict a_additional) (\<lambda>add.
       Inr \<lparr>order_number = ord, style = sty, fabric = fab, color = col, quantity = qty,
            status = sta, dates = Some a_dates, source_file = Some a_source,
            additional_data = add, fields_set = item_field_names\<rparr>)))))))"

text \<open>The part of the integer coercion that does not depend on the library's lax rules:
  None and integers are taken as they are. Used to run the model on concrete inputs.\<close>

fun validate_opt_int :: "pyval \<Rightarrow> error + int option" where
  "validate_opt_int PNone = Inr None"
| "validate_opt_int (PInt i) = Inr (Some i)"
| "validate_opt_int v = Inl ValidationError"

section \<open>parser.py: materialising the records\<close>

text \<open>\<^verbatim>\<open>d.get(k)\<close> and \<^verbatim>\<open>d.get(k, default)\<close>.\<close>

definition get_or :: "pydict \<Rightarrow> string \<Rightarrow> pyval \<Rightarrow> pyval" where
  "get_or d k dflt = (case dict_get d k of None \<Rightarrow> dflt | Some v \<Rightarrow> v)"

text \<open>
  The body of the \<^verbatim>\<open>try\<close> in step 4 of \<^verbatim>\<open>parse_excel_to_production_items\<close> for
  one element of the extracted sequence. \<^verbatim>\<open>item_data.pop("dates", {})\<close> needs a
  dictionary: a list has a one-argument \<^verbatim>\<open>pop\<close> (TypeError), the other values have
  none (AttributeError). \<^verbatim>\<open>ProductionDates(**dates_data)\<close> needs a mapping.
\<close>

definition build_dates :: "pyval \<Rightarrow> error + ProductionDates" where
  "build_dates dates_data =
     (if truthy dates_data
      then (case dates_data of PDict kw \<Rightarrow> ProductionDates_init kw | _ \<Rightarrow> Inl TypeError)
      else Inr empty_dates)"

definition build_item ::
  "(pyval \<Rightarrow> error + int option) \<Rightarrow> string \<Rightarrow> pyval \<Rightarrow> error + ProductionItemCreate" where
  "build_item vint filename item_data =
     (case item_data of
        PDict d0 \<Rightarrow>
          (let dates_data = get_or d0 ''dates'' (PDict []);
               d = dict_del d0 ''dates''
           in bind_err (build_dates dates_data) (\<lambda>dts.
                ProductionItemCreate_init vint
                  (get_or d ''order_number'' PNone)
                  (get_or d ''style'' PNone)
                  (get_or d ''fabric'' PNone)
                  (get_or d ''color'' PNone)
                  (get_or d ''quantity'' PNone)
                  (get_or d ''status'' (PStr ''pending''))
                  dts
                  filename
                  (get_or d ''additional_data'' (PDict []))))
      | PList xs \<Rightarrow> Inl TypeError
      | _ \<Rightarrow> Inl AttributeError)"

text \<open>The loop of step 4: every exception of the body is caught, logged and the element
  skipped with \<^verbatim>\<open>continue\<close>.\<close>

fun materialize :: "(pyval \<Rightarrow> error + int option) \<Rightarrow> string \<Rightarrow> pyval list \<Rightarrow>
    ProductionItemCreate list" where
  "materialize vint filename [] = []"
| "materialize vint filename (item_data # rest) =
     (case build_item vint filename item_data of
        Inl e \<Rightarrow> materialize vint filename rest
      | Inr production_item \<Rightarrow> production_item # materialize vint filename rest)"

text \<open>Steps 3 and 4 together, from the parsed reply: an error of the extraction propagates,
  the loop itself never raises.\<close>

definition parse_reply_to_production_items ::
  "(pyval \<Rightarrow> error + int option) \<Rightarrow> string \<Rightarrow> pyval \<Rightarrow> error + ProductionItemCreate list" where
  "parse_reply_to_production_items vint filename parsed_data =
     bind_err (extract_production_data parsed_data) (\<lambda>extracted_items.
       Inr (materialize vint filename (py_iter extracted_items)))"

text \<open>The test \<^verbatim>\<open>isinstance(value, list)\<close>, used to state which values are lists.\<close>

fun is_list :: "pyval \<Rightarrow> bool" where
  "is_list (PList xs) = True"
| "is_list v = False"

section \<open>database.py: the collection\<close>

text \<open>
  The state the database layer works on: the documents of the collection in insertion
  order, how often the clock has been read, how many identifiers the driver has generated,
  and the collection methods invoked so far, oldest first. The clock and the identifier
  generator are outside the program: \<open>clk n\<close> is what the \<open>n\<close>-th call of
  \<^verbatim>\<open>datetime.utcnow()\<close> returns, \<open>gen n\<close> the 24 hexadecimal digits of the
  \<open>n\<close>-th generated ObjectId.
\<close>

record world =
  docs :: "pydict list"
  clock_reads :: nat
  ids_made :: nat
  calls :: "string list"

definition utcnow :: "(nat \<Rightarrow> int) \<Rightarrow> world \<Rightarrow> int \<times> world" where
  "utcnow clk w = (clk (clock_reads w), w\<lparr>clock_reads := Suc (clock_reads w)\<rparr>)"

definition called :: "string \<Rightarrow> world \<Rightarrow> world" where
  "called name w = w\<lparr>calls := calls w @ [name]\<rparr>"

subsection \<open>\<^verbatim>\<open>model_dump(exclude_unset=True)\<close>\<close>

definition opt_str_val :: "string option \<Rightarrow> pyval" where
  "opt_str_val x = (case x of None \<Rightarrow> PNone | Some s \<Rightarrow> PStr s)"

definition dump_dates :: "ProductionDates \<Rightarrow> pydict" where
  "dump_dates dts =
     filter (\<lambda>kv. fst kv \<in> set (d_fields_set dts))
       [(''fabric'', opt_str_val (d_fabric dts)),
        (''cutting'', opt_str_val (d_cutting dts)),
        (''sewing'', opt_str_val (d_sewing dts)),
        (''finishing'', opt_str_val (d_finishing dts)),
        (''packing'', opt_str_val (d_packing dts)),
        (''shipping'', opt_str_val (d_shipping dts)),
        (''delivery'', opt_str_val (d_delivery dts)),
        (''other_milestones'',
           (case other_milestones dts of
              None \<Rightarrow> PNone
            | Some m \<Rightarrow> PDict (map (\<lambda>kv. (fst kv, PStr (snd kv))) m)))]"

definition model_dump :: "ProductionItemCreate \<Rightarrow> pydict" where
  "model_dump item =
     filter (\<lambda>kv. fst kv \<in> set (fields_set item))
       [(''order_number'', opt_str_val (order_number item)),
        (''style'', opt_str_val (style item)),
        (''fabric'', opt_str_val (fabric item)),
        (''color'', opt_str_val (color item)),
        (''quantity'', (case quantity item of None \<Rightarrow> PNone | Some q \<Rightarrow> PInt q)),
        (''status'', opt_str_val (status item)),
        (''dates'', (case dates item of None \<Rightarrow> PNone | Some dts \<Rightarrow> PDict (dump_dates dts))),
        (''source_file'', opt_str_val (source_file item)),
        (''additional_data'',
           (case additional_data item of None \<Rightarrow> PNone | Some a \<Rightarrow> PDict a))]"

subsection \<open>Identifiers\<close>

definition is_hex :: "char \<Rightarrow> bool" where
  "is_hex c = (c \<in> set ''0123456789abcdefABCDEF'')"

text \<open>Lower-casing of the ASCII letters; every other character is left as it is.\<close>

definition to_lower :: "char \<Rightarrow> char" where
  "to_lower c =
     (case map_of (zip ''ABCDEFGHIJKLMNOPQRSTUVWXYZ'' ''abcdefghijklmnopqrstuvwxyz'') c of
        Some l \<Rightarrow> l
      | None \<Rightarrow> c)"

text \<open>The ASCII whitespace: blank, tab, line feed, vertical tab, form feed, carriage
  return.\<close>

definition is_space :: "char \<Rightarrow> bool" where
  "is_space c = (c \<in> set [CHR '' '', CHR 0x09, CHR 0x0A, CHR 0x0B, CHR 0x0C, CHR 0x0D])"

text \<open>
  \<^verbatim>\<open>bytes.fromhex\<close>: the string is read as pairs of hexadecimal digits, whitespace is
  skipped before each pair and at the end, and anything else is an error (None). The
  bytes read are kept as their lower-case digit pairs, which is how \<^verbatim>\<open>str\<close> shows
  an ObjectId.
\<close>

fun fromhex :: "string \<Rightarrow> string option" where
  "fromhex [] = Some []"
| "fromhex [c] = (if is_space c then Some [] else None)"
| "fromhex (c # c2 # cs) =
     (if is_space c then fromhex (c2 # cs)
      else if is_hex c \<and> is_hex c2
           then (case fromhex cs of None \<Rightarrow> None | Some h \<Rightarrow> Some (to_lower c # to_lower c2 # h))
           else None)"

text \<open>
  \<^verbatim>\<open>ObjectId(item_id)\<close> for a string: a string of 24 characters that
  \<^verbatim>\<open>bytes.fromhex\<close> can read is taken, with the bytes read as its value; every other
  string raises InvalidId. So 24 hexadecimal digits give a twelve-byte identifier, and 24
  characters of digit pairs and whitespace give a shorter one, which is accepted too.
\<close>

definition ObjectId :: "string \<Rightarrow> error + pyval" where
  "ObjectId s =
     (if length s = 24
      then (case fromhex s of None \<Rightarrow> Inl InvalidId | Some h \<Rightarrow> Inr (PObjectId h))
      else Inl InvalidId)"

text \<open>\<^verbatim>\<open>item["_id"] = str(item["_id"])\<close>, for the ObjectIds the collection
  stores.\<close>

definition stringify_id :: "pydict \<Rightarrow> pydict" where
  "stringify_id d =
     (case dict_get d ''_id'' of
        Some (PObjectId h) \<Rightarrow> dict_set d ''_id'' (PStr h)
      | _ \<Rightarrow> d)"

definition has_id :: "pyval \<Rightarrow> pydict \<Rightarrow> bool" where
  "has_id oid d = (dict_get d ''_id'' = Some oid)"

subsection \<open>The collection's methods\<close>

text \<open>
  \<^verbatim>\<open>insert_one\<close> and \<^verbatim>\<open>insert_many\<close>: the documents built by the functions
  below never carry an \<^verbatim>\<open>_id\<close> (it is no field of the model), so the driver
  generates one for each.
\<close>

definition insert_one :: "(nat \<Rightarrow> string) \<Rightarrow> world \<Rightarrow> pydict \<Rightarrow> pyval \<times> world" where
  "insert_one gen w d =
     (let oid = PObjectId (gen (ids_made w))
      in (oid, called ''insert_one''
                 (w\<lparr>docs := docs w @ [dict_set d ''_id'' oid], ids_made := Suc (ids_made w)\<rparr>)))"

fun assign_ids :: "(nat \<Rightarrow> string) \<Rightarrow> nat \<Rightarrow> pydict list \<Rightarrow> (pyval \<times> pydict) list" where
  "assign_ids gen n [] = []"
| "assign_ids gen n (d # ds) =
     (PObjectId (gen n), dict_set d ''_id'' (PObjectId (gen n))) # assign_ids gen (Suc n) ds"

definition insert_many :: "(nat \<Rightarrow> string) \<Rightarrow> world \<Rightarrow> pydict list \<Rightarrow> pyval list \<times> world" where
  "insert_many gen w ds =
     (let new = assign_ids gen (ids_made w) ds
      in (map fst new,
          called ''insert_many''
            (w\<lparr>docs := docs w @ map snd new, ids_made := ids_made w + length ds\<rparr>)))"

definition find_one :: "world \<Rightarrow> pyval \<Rightarrow> pydict option \<times> world" where
  "find_one w oid = (find (has_id oid) (docs w), called ''find_one'' w)"

fun remove_first :: "('a \<Rightarrow> bool) \<Rightarrow> 'a list \<Rightarrow> 'a list" where
  "remove_first P [] = []"
| "remove_first P (x # xs) = (if P x then xs else x # remove_first P xs)"

definition delete_one :: "world \<Rightarrow> pyval \<Rightarrow> nat \<times> world" where
  "delete_one w oid =
     ((if list_ex (has_id oid) (docs w) then 1 else 0),
      called ''delete_one'' (w\<lparr>docs := remove_first (has_id oid) (docs w)\<rparr>))"

definition delete_many_all :: "world \<Rightarrow> nat \<times> world" where
  "delete_many_all w = (length (docs w), called ''delete_many'' (w\<lparr>docs := []\<rparr>))"

text \<open>
  \<^verbatim>\<open>update_one(filter, {"$set": fields})\<close> on the first document with the
  identifier. \<^verbatim>\<open>$set\<close> assigns every given field (field names are taken as top-level
  names); the store refuses to change \<^verbatim>\<open>_id\<close>. The modified count is 1 when the
  document changed.
\<close>

fun set_fields :: "pydict \<Rightarrow> pydict \<Rightarrow> pydict" where
  "set_fields d [] = d"
| "set_fields d ((k, v) # kvs) = set_fields (dict_set d k v) kvs"

fun replace_first :: "('a \<Rightarrow> bool) \<Rightarrow> 'a \<Rightarrow> 'a list \<Rightarrow> 'a list" where
  "replace_first P y [] = []"
| "replace_first P y (x # xs) = (if P x then y # xs else x # replace_first P y xs)"

definition update_one :: "world \<Rightarrow> pyval \<Rightarrow> pydict \<Rightarrow> error + (nat \<times> world)" where
  "update_one w oid upd =
     (let w1 = called ''update_one'' w
      in case find (has_id oid) (docs w) of
           None \<Rightarrow> Inr (0, w1)
         | Some d \<Rightarrow>
            (let d' = set_fields d upd
             in if dict_get d' ''_id'' \<noteq> Some oid then Inl WriteError
                else Inr ((if d' = d then 0 else 1),
                          w1\<lparr>docs := replace_first (has_id oid) d' (docs w)\<rparr>)))"

subsection \<open>Filters\<close>

text \<open>
  The store evaluates \<^verbatim>\<open>{"$regex": p, "$options": "i"}\<close> as an unanchored,
  case-insensitive regular-expression search. Its regular-expression engine is outside the
  program and is a parameter: \<open>rx p\<close> is None when the store refuses the pattern \<open>p\<close>,
  and the query then fails; otherwise it is the test whether the expression \<open>p\<close> is found
  somewhere in a string, ignoring case.
\<close>

type_synonym regex_engine = "string \<Rightarrow> (string \<Rightarrow> bool) option"

text \<open>A query is the dictionary the function builds: a field is tested against a regular
  expression or against a value.\<close>

datatype cond = Regex_i string | Equals string

type_synonym query = "(string \<times> cond) list"

fun query_set :: "query \<Rightarrow> string \<Rightarrow> cond \<Rightarrow> query" where
  "query_set [] k c = [(k, c)]"
| "query_set ((k', c') # q) k c = (if k' = k then (k, c) # q else (k', c') # query_set q k c)"

text \<open>A string condition holds of a field that is a string satisfying it, or an array
  with such a string among its elements; it holds of no other value and of no missing field.\<close>

fun str_field_matches :: "(string \<Rightarrow> bool) \<Rightarrow> pyval option \<Rightarrow> bool" where
  "str_field_matches P (Some (PStr s)) = P s"
| "str_field_matches P (Some (PList xs)) = list_ex (\<lambda>x. case x of PStr s \<Rightarrow> P s | _ \<Rightarrow> False) xs"
| "str_field_matches P v = False"

fun cond_matches :: "regex_engine \<Rightarrow> cond \<Rightarrow> pyval option \<Rightarrow> bool" where
  "cond_matches rx (Regex_i p) v =
     (case rx p of None \<Rightarrow> False | Some found \<Rightarrow> str_field_matches found v)"
| "cond_matches rx (Equals s) v = str_field_matches (\<lambda>x. x = s) v"

definition doc_matches :: "regex_engine \<Rightarrow> query \<Rightarrow> pydict \<Rightarrow> bool" where
  "doc_matches rx q d = list_all (\<lambda>kc. cond_matches rx (snd kc) (dict_get d (fst kc))) q"

fun cond_accepted :: "regex_engine \<Rightarrow> cond \<Rightarrow> bool" where
  "cond_accepted rx (Regex_i p) = (rx p \<noteq> None)"
| "cond_accepted rx (Equals s) = True"

definition count_documents :: "regex_engine \<Rightarrow> world \<Rightarrow> query \<Rightarrow> error + (int \<times> world)" where
  "count_documents rx w q =
     (if list_all (\<lambda>kc. cond_accepted rx (snd kc)) q
      then Inr (int (length (filter (doc_matches rx q) (docs w))), called ''count_documents'' w)
      else Inl OperationFailure)"

text \<open>Sorting by \<^verbatim>\<open>created_at\<close>, newest first; a document without a timestamp there
  comes after those that have one, and documents with equal keys keep their order.\<close>

definition created_key :: "pydict \<Rightarrow> int option" where
  "created_key d = (case dict_get d ''created_at'' of Some (PDatetime t) \<Rightarrow> Some t | _ \<Rightarrow> None)"

fun key_ge :: "int option \<Rightarrow> int option \<Rightarrow> bool" where
  "key_ge a None = True"
| "key_ge None (Some b) = False"
| "key_ge (Some a) (Some b) = (b \<le> a)"

fun insert_desc :: "pydict \<Rightarrow> pydict list \<Rightarrow> pydict list" where
  "insert_desc d [] = [d]"
| "insert_desc d (x # xs) =
     (if key_ge (created_key x) (created_key d) then x # insert_desc d xs else d # x # xs)"

definition sort_desc :: "pydict list \<Rightarrow> pydict list" where
  "sort_desc ds = foldr insert_desc ds []"

section \<open>database.py: the operations\<close>

definition create_production_item ::
  "(nat \<Rightarrow> int) \<Rightarrow> (nat \<Rightarrow> string) \<Rightarrow> world \<Rightarrow> ProductionItemCreate \<Rightarrow> string \<times> world" where
  "create_production_item clk gen w item =
     (let item_dict = model_dump item;
          (t1, w1) = utcnow clk w;
          item_dict = dict_set item_dict ''created_at'' (PDatetime t1);
          (t2, w2) = utcnow clk w1;
          item_dict = dict_set item_dict ''updated_at'' (PDatetime t2);
          (inserted_id, w3) = insert_one gen w2 item_dict
      in (case inserted_id of PObjectId h \<Rightarrow> h | _ \<Rightarrow> [], w3))"

text \<open>The loop of \<^verbatim>\<open>create_many_production_items\<close>, which builds
  \<^verbatim>\<open>items_dict\<close> and reads the clock twice for every item.\<close>

fun dump_items :: "(nat \<Rightarrow> int) \<Rightarrow> world \<Rightarrow> ProductionItemCreate list \<Rightarrow> pydict list \<times> world" where
  "dump_items clk w [] = ([], w)"
| "dump_items clk w (item # items) =
     (let item_dict = model_dump item;
          (t1, w1) = utcnow clk w;
          item_dict = dict_set item_dict ''created_at'' (PDatetime t1);
          (t2, w2) = utcnow clk w1;
          item_dict = dict_set item_dict ''updated_at'' (PDatetime t2);
          (rest, w3) = dump_items clk w2 items
      in (item_dict # rest, w3))"

definition create_many_production_items ::
  "(nat \<Rightarrow> int) \<Rightarrow> (nat \<Rightarrow> string) \<Rightarrow> world \<Rightarrow> ProductionItemCreate list \<Rightarrow> string list \<times> world" where
  "create_many_production_items clk gen w items =
     (let (items_dict, w1) = dump_items clk w items
      in if items_dict = [] then ([], w1)
         else (let (inserted_ids, w2) = insert_many gen w1 items_dict
               in (map (\<lambda>i. case i of PObjectId h \<Rightarrow> h | _ \<Rightarrow> []) inserted_ids, w2)))"

text \<open>\<^verbatim>\<open>get_production_item\<close>: every exception, the InvalidId of
  \<^verbatim>\<open>ObjectId(item_id)\<close> among them, is caught and answered with None.\<close>

definition get_production_item :: "world \<Rightarrow> string \<Rightarrow> pydict option \<times> world" where
  "get_production_item w item_id =
     (case ObjectId item_id of
        Inl e \<Rightarrow> (None, w)
      | Inr oid \<Rightarrow>
         (let (item, w1) = find_one w oid
          in (case item of
                None \<Rightarrow> (None, w1)
              | Some d \<Rightarrow> (Some (if truthy (PDict d) then stringify_id d else d), w1))))"

text \<open>
  \<^verbatim>\<open>get_production_items\<close>. The arguments \<^verbatim>\<open>style\<close>, \<^verbatim>\<open>status\<close> and
  \<^verbatim>\<open>order_number\<close> are optional strings; \<^verbatim>\<open>if style:\<close> holds for a non-empty
  string. A query the store refuses fails at the count, which is awaited before the cursor
  is built. The cursor sorts before it
  skips and limits, whatever the order of the method calls; a negative \<^verbatim>\<open>skip\<close> is
  refused by \<^verbatim>\<open>skip\<close> and a negative \<^verbatim>\<open>limit\<close> by \<^verbatim>\<open>to_list\<close>.
\<close>

definition build_query :: "string option \<Rightarrow> string option \<Rightarrow> string option \<Rightarrow> query" where
  "build_query style_f status_f order_f =
     (let query = [];
          query = (case style_f of
                     None \<Rightarrow> query
                   | Some s \<Rightarrow> if s \<noteq> [] then query_set query ''style'' (Regex_i s) else query);
          query = (case status_f of
                     None \<Rightarrow> query
                   | Some s \<Rightarrow> if s \<noteq> [] then query_set query ''status'' (Equals s) else query);
          query = (case order_f of
                     None \<Rightarrow> query
                   | Some s \<Rightarrow>
                      if s \<noteq> [] then query_set query ''order_number'' (Regex_i s) else query)
      in query)"

definition get_production_items ::
  "regex_engine \<Rightarrow> world \<Rightarrow> int \<Rightarrow> int \<Rightarrow> string option \<Rightarrow> string option \<Rightarrow>
   string option \<Rightarrow> error + ((pydict list \<times> int) \<times> world)" where
  "get_production_items rx w skip limit style_f status_f order_f =
     (let query = build_query style_f status_f order_f
      in case count_documents rx w query of
           Inl e \<Rightarrow> Inl e
         | Inr (total_count, w1) \<Rightarrow>
            (if skip < 0 then Inl ValueError
             else if limit < 0 then Inl ValueError
             else (let found = sort_desc (filter (doc_matches rx query) (docs w1));
                       items = take (nat limit) (drop (nat skip) found);
                       w2 = called ''find'' w1
                   in Inr ((map stringify_id items, total_count), w2))))"

text \<open>\<^verbatim>\<open>update_production_item\<close>: the clock is read and stored under
  \<^verbatim>\<open>updated_at\<close> before the identifier is parsed; every exception is answered with
  False.\<close>

definition update_production_item ::
  "(nat \<Rightarrow> int) \<Rightarrow> world \<Rightarrow> string \<Rightarrow> pydict \<Rightarrow> bool \<times> world" where
  "update_production_item clk w item_id update_data =
     (let (t, w1) = utcnow clk w;
          update_data = dict_set update_data ''updated_at'' (PDatetime t)
      in case ObjectId item_id of
           Inl e \<Rightarrow> (False, w1)
         | Inr oid \<Rightarrow>
            (case update_one w1 oid update_data of
               Inl e \<Rightarrow> (False, called ''update_one'' w1)
             | Inr (modified_count, w2) \<Rightarrow> (modified_count > 0, w2)))"

definition delete_production_item :: "world \<Rightarrow> string \<Rightarrow> bool \<times> world" where
  "delete_production_item w item_id =
     (case ObjectId item_id of
        Inl e \<Rightarrow> (False, w)
      | Inr oid \<Rightarrow> (let (deleted_count, w1) = delete_one w oid in (deleted_count > 0, w1)))"

definition delete_all_production_items :: "world \<Rightarrow> nat \<times> world" where
  "delete_all_production_items w = delete_many_all w"

section \<open>The properties in the specification's words\<close>





text \<open>
  The simplest regular expressions are made of literal characters and the wildcard
  \<^verbatim>\<open>.\<close>, which stands for any character but a line feed. Searching for one of them
  ignoring case is \<open>regex_search_i\<close>, with case folded on the ASCII letters; an engine
  that does so on all of them satisfies \<open>simple_patterns_ok\<close>. A literal pattern holds
  no metacharacter at all.
\<close>

definition is_meta :: "char \<Rightarrow> bool" where
  "is_meta c = (c \<in> set ''^$.|?*+()[]{}'' \<or> c = CHR 0x5C)"


definition simple_pattern :: "string \<Rightarrow> bool" where
  "simple_pattern p = list_all (\<lambda>c. c = CHR ''.'' \<or> \<not> is_meta c) p"

definition char_matches :: "char \<Rightarrow> char \<Rightarrow> bool" where
  "char_matches p c = (if p = CHR ''.'' then c \<noteq> CHR 0x0A else to_lower p = to_lower c)"

fun match_here :: "string \<Rightarrow> string \<Rightarrow> bool" where
  "match_here [] s = True"
| "match_here (p # ps) [] = False"
| "match_here (p # ps) (c # cs) = (char_matches p c \<and> match_here ps cs)"

fun regex_search_i :: "string \<Rightarrow> string \<Rightarrow> bool" where
  "regex_search_i p [] = match_here p []"
| "regex_search_i p (c # cs) = (match_here p (c # cs) \<or> regex_search_i p cs)"


text \<open>A document's two timestamps are in order; its \<^verbatim>\<open>updated_at\<close>.\<close>

definition timestamps_ok :: "pydict \<Rightarrow> bool" where
  "timestamps_ok d =
     (case (dict_get d ''created_at'', dict_get d ''updated_at'') of
        (Some (PDatetime c), Some (PDatetime u)) \<Rightarrow> c \<le> u
      | _ \<Rightarrow> False)"

definition updated_key :: "pydict \<Rightarrow> int option" where
  "updated_key d = (case dict_get d ''updated_at'' of Some (PDatetime t) \<Rightarrow> Some t | _ \<Rightarrow> None)"

text \<open>Every stored document has its timestamps in order and was last updated no later
  than \<open>now\<close>.\<close>

definition store_ok :: "int \<Rightarrow> pydict list \<Rightarrow> bool" where
  "store_ok now ds = list_all (\<lambda>d. timestamps_ok d \<and> key_ge (Some now) (updated_key d)) ds"

section \<open>Concrete inputs\<close>

text \<open>A clock that advances by one unit at every reading, an identifier generator, an
  engine that takes the simple patterns and refuses every other one, and a collection of
  two stored records, on which the model is run below.\<close>

definition example_engine :: regex_engine where
  "example_engine p = (if simple_pattern p then Some (regex_search_i p) else None)"

definition example_clock :: "nat \<Rightarrow> int" where
  "example_clock n = 1000 + int n"

definition example_gen :: "nat \<Rightarrow> string" where
  "example_gen n = replicate 23 (CHR ''0'') @ [''0123456789abcdef'' ! (n mod 16)]"

definition example_doc1 :: pydict where
  "example_doc1 =
     [(''order_number'', PStr ''PO-17''), (''style'', PStr ''Classic-Fit''),
      (''status'', PStr ''pending''), (''created_at'', PDatetime 10),
      (''updated_at'', PDatetime 10), (''_id'', PObjectId ''00000000000000000000000a'')]"

definition example_doc2 :: pydict where
  "example_doc2 =
     [(''order_number'', PStr ''PO-18''), (''style'', PStr ''abc''),
      (''status'', PStr ''completed''), (''created_at'', PDatetime 20),
      (''updated_at'', PDatetime 25), (''_id'', PObjectId ''00000000000000000000000b'')]"

definition example_world :: world where
  "example_world =
     \<lparr>docs = [example_doc1, example_doc2], clock_reads = 0, ids_made = 0, calls = []\<rparr>"

section \<open>Dictionaries\<close>

lemma dict_get_del [simp]:
  "dict_get (dict_del d k) k' = (if k' = k then None else dict_get d k')"
  by (induction d) auto

lemma dict_get_None_iff: "dict_get d k = None \<longleftrightarrow> k \<notin> fst ` set d"
  by (induction d) (auto split: if_splits)

lemma dict_get_set [simp]:
  "dict_get (dict_set d k v) k' = (if k' = k then Some v else dict_get d k')"
  by (induction d) auto

lemma dict_del_set_other:
  "k \<noteq> k' \<Longrightarrow> dict_del (dict_set d k v) k' = dict_set (dict_del d k') k v"
  by (induction d) auto

lemma bind_err_Inr_iff:
  "bind_err m f = Inr r \<longleftrightarrow> (\<exists>x. m = Inr x \<and> f x = Inr r)"
  by (cases m) (auto simp: bind_err_def)

section \<open>The reply's shapes\<close>

lemma first_list_found:
  "list_all (\<lambda>kv. \<not> is_list (snd kv)) pre \<Longrightarrow>
   first_list (map snd pre @ PList xs # vs) = Some (PList xs)"
proof (induction pre)
  case Nil
  then show ?case by simp
next
  case (Cons a pre)
  then show ?case by (cases "snd a") auto
qed

lemma first_list_none:
  "list_all (\<lambda>kv. \<not> is_list (snd kv)) d \<Longrightarrow> first_list (map snd d) = None"
proof (induction d)
  case Nil
  then show ?case by simp
next
  case (Cons a d)
  then show ?case by (cases "snd a") auto
qed

text \<open>
  C1. The reply is normalised by an ordered precedence, first match wins: a list is
  returned as it is; an object with the key \<^verbatim>\<open>items\<close> gives the list under that key,
  whatever else it holds; otherwise an object with the key \<^verbatim>\<open>production_items\<close>
  gives the list under that key; otherwise the first list among the object's values, in
  iteration order; otherwise the object alone, wrapped in a list.
\<close>

theorem extract_production_data_precedence:
  "(parsed_data = PList xs \<longrightarrow> extract_production_data parsed_data = Inr (PList xs)) \<and>
   (parsed_data = PDict d \<and> dict_get d ''items'' = Some (PList xs) \<longrightarrow>
      extract_production_data parsed_data = Inr (PList xs)) \<and>
   (parsed_data = PDict d \<and> ''items'' \<notin> fst ` set d \<and>
    dict_get d ''production_items'' = Some (PList xs) \<longrightarrow>
      extract_production_data parsed_data = Inr (PList xs)) \<and>
   (parsed_data = PDict d \<and> ''items'' \<notin> fst ` set d \<and> ''production_items'' \<notin> fst ` set d \<and>
    d = pre @ (k, PList xs) # post \<and> list_all (\<lambda>kv. \<not> is_list (snd kv)) pre \<longrightarrow>
      extract_production_data parsed_data = Inr (PList xs)) \<and>
   (parsed_data = PDict d \<and> ''items'' \<notin> fst ` set d \<and> ''production_items'' \<notin> fst ` set d \<and>
    list_all (\<lambda>kv. \<not> is_list (snd kv)) d \<longrightarrow>
      extract_production_data parsed_data = Inr (PList [parsed_data]))"
  by (auto simp: extract_production_data_def select_items_def first_list_found first_list_none
      simp flip: dict_get_None_iff)

theorem extract_production_data_precedence_witness:
  "extract_production_data (PList [PInt 1]) = Inr (PList [PInt 1]) \<and>
   extract_production_data
     (PDict [(''production_items'', PList [PInt 2]), (''items'', PList [PInt 1])])
     = Inr (PList [PInt 1]) \<and>
   extract_production_data (PDict [(''rows'', PList [PInt 3]), (''production_items'', PList [PInt 2])])
     = Inr (PList [PInt 2]) \<and>
   extract_production_data (PDict [(''note'', PStr ''x''), (''rows'', PList [PInt 3]), (''more'', PList [])])
     = Inr (PList [PInt 3]) \<and>
   extract_production_data (PDict [(''style'', PStr ''A1'')])
     = Inr (PList [PDict [(''style'', PStr ''A1'')]])"
proof (intro conjI)
  show "extract_production_data (PList [PInt 1]) = Inr (PList [PInt 1])"
    using extract_production_data_precedence [of "PList [PInt 1]" "[PInt 1]"] by simp
  show "extract_production_data
     (PDict [(''production_items'', PList [PInt 2]), (''items'', PList [PInt 1])])
     = Inr (PList [PInt 1])"
    using extract_production_data_precedence
      [of "PDict [(''production_items'', PList [PInt 2]), (''items'', PList [PInt 1])]" "[PInt 1]"
          "[(''production_items'', PList [PInt 2]), (''items'', PList [PInt 1])]"]
    by simp
  show "extract_production_data
     (PDict [(''rows'', PList [PInt 3]), (''production_items'', PList [PInt 2])])
     = Inr (PList [PInt 2])"
    using extract_production_data_precedence
      [of "PDict [(''rows'', PList [PInt 3]), (''production_items'', PList [PInt 2])]" "[PInt 2]"
          "[(''rows'', PList [PInt 3]), (''production_items'', PList [PInt 2])]"]
    by simp
  show "extract_production_data
     (PDict [(''note'', PStr ''x''), (''rows'', PList [PInt 3]), (''more'', PList [])])
     = Inr (PList [PInt 3])"
    using extract_production_data_precedence
      [of "PDict [(''note'', PStr ''x''), (''rows'', PList [PInt 3]), (''more'', PList [])]"
          "[PInt 3]" "[(''note'', PStr ''x''), (''rows'', PList [PInt 3]), (''more'', PList [])]"
          "[(''note'', PStr ''x'')]" "''rows''" "[(''more'', PList [])]"]
    by simp
  show "extract_production_data (PDict [(''style'', PStr ''A1'')])
     = Inr (PList [PDict [(''style'', PStr ''A1'')]])"
    using extract_production_data_precedence
      [of "PDict [(''style'', PStr ''A1'')]" _ "[(''style'', PStr ''A1'')]"]
    by simp
qed

section \<open>The batch\<close>

lemma materialize_filter:
  "map Inr (materialize vint fn xs) = filter (\<lambda>r. \<not> isl r) (map (build_item vint fn) xs)"
  by (induction xs) (auto split: sum.splits)

lemma materialize_length:
  "length (materialize vint fn xs) + length (filter (\<lambda>x. isl (build_item vint fn x)) xs)
     = length xs"
  by (induction xs) (auto split: sum.splits)

lemma materialize_append:
  "materialize vint fn (xs @ ys) = materialize vint fn xs @ materialize vint fn ys"
  by (induction xs) (auto split: sum.splits)

text \<open>
  C2. Of \<open>N\<close> raw maps of which \<open>M\<close> fail construction, exactly \<open>N - M\<close> records are
  returned: the result is the successful constructions, in order, and a failing map
  anywhere in the batch is skipped without touching what comes before or after it. The loop
  is a total function into lists, so it has no way to raise.
\<close>

theorem materialize_skips_failures:
  "length (materialize vint fn xs)
     = length xs - length (filter (\<lambda>x. isl (build_item vint fn x)) xs) \<and>
   map Inr (materialize vint fn xs) = filter (\<lambda>r. \<not> isl r) (map (build_item vint fn) xs) \<and>
   (isl (build_item vint fn bad) \<longrightarrow>
      materialize vint fn (xs @ bad # ys) = materialize vint fn xs @ materialize vint fn ys)"
proof -
  have 1: "length (materialize vint fn xs)
     = length xs - length (filter (\<lambda>x. isl (build_item vint fn x)) xs)"
    using materialize_length [of vint fn xs] by arith
  have 2: "map Inr (materialize vint fn xs)
     = filter (\<lambda>r. \<not> isl r) (map (build_item vint fn) xs)"
    by (rule materialize_filter)
  have 3: "isl (build_item vint fn bad) \<longrightarrow>
      materialize vint fn (xs @ bad # ys) = materialize vint fn xs @ materialize vint fn ys"
    by (auto simp: materialize_append split: sum.splits)
  from 1 2 3 show ?thesis by blast
qed

theorem materialize_skips_failures_witness:
  "isl (build_item validate_opt_int ''plan.xlsx'' (PInt 3)) \<and>
   length (materialize validate_opt_int ''plan.xlsx''
             [PDict [(''style'', PStr ''A1'')], PInt 3, PDict [(''quantity'', PInt 4)]]) = 2 \<and>
   materialize validate_opt_int ''plan.xlsx''
     ([PDict [(''style'', PStr ''A1'')]] @ PInt 3 # [PDict [(''quantity'', PInt 4)]])
   = materialize validate_opt_int ''plan.xlsx'' [PDict [(''style'', PStr ''A1'')]] @
     materialize validate_opt_int ''plan.xlsx'' [PDict [(''quantity'', PInt 4)]]"
proof -
  have bad: "isl (build_item validate_opt_int ''plan.xlsx'' (PInt 3))"
    by (simp add: build_item_def)
  have ok1: "\<not> isl (build_item validate_opt_int ''plan.xlsx'' (PDict [(''style'', PStr ''A1'')]))"
    by (simp add: build_item_def build_dates_def get_or_def ProductionItemCreate_init_def
        bind_err_def)
  have ok2: "\<not> isl (build_item validate_opt_int ''plan.xlsx'' (PDict [(''quantity'', PInt 4)]))"
    by (simp add: build_item_def build_dates_def get_or_def ProductionItemCreate_init_def
        bind_err_def)
  from bad ok1 ok2
    materialize_skips_failures [of validate_opt_int "''plan.xlsx''"
      "[PDict [(''style'', PStr ''A1'')], PInt 3, PDict [(''quantity'', PInt 4)]]"]
    materialize_skips_failures [of validate_opt_int "''plan.xlsx''"
      "[PDict [(''style'', PStr ''A1'')]]" "PInt 3" "[PDict [(''quantity'', PInt 4)]]"]
  show ?thesis by simp
qed

section \<open>One record\<close>

lemma get_or_del [simp]:
  "k \<noteq> k' \<Longrightarrow> get_or (dict_del d k') k dflt = get_or d k dflt"
  by (simp add: get_or_def)

lemma get_or_set_other [simp]:
  "k \<noteq> k' \<Longrightarrow> get_or (dict_set d k v) k' dflt = get_or d k' dflt"
  by (simp add: get_or_def)

lemma build_item_Inr_status:
  assumes "build_item vint fn (PDict d) = Inr r"
  shows "validate_opt_str (get_or d ''status'' (PStr ''pending'')) = Inr (status r)"
  using assms
  by (auto simp: build_item_def ProductionItemCreate_init_def bind_err_Inr_iff Let_def)

lemma build_item_Inr_additional:
  assumes "build_item vint fn (PDict d) = Inr r"
  shows "validate_opt_dict (get_or d ''additional_data'' (PDict [])) = Inr (additional_data r)"
  using assms
  by (auto simp: build_item_def ProductionItemCreate_init_def bind_err_Inr_iff Let_def)

lemma build_item_Inr_dates:
  assumes "build_item vint fn (PDict d) = Inr r"
  shows "\<exists>dts. build_dates (get_or d ''dates'' (PDict [])) = Inr dts \<and> dates r = Some dts"
  using assms
  by (auto simp: build_item_def ProductionItemCreate_init_def bind_err_Inr_iff Let_def)

lemma build_dates_falsy: "\<not> truthy v \<Longrightarrow> build_dates v = Inr empty_dates"
  by (simp add: build_dates_def)

lemma build_item_dates_irrelevant:
  assumes "build_dates (get_or d ''dates'' (PDict [])) = Inr empty_dates"
  shows "build_item vint fn (PDict d) = build_item vint fn (PDict (dict_del d ''dates''))"
proof -
  have 1: "dict_del (dict_del d ''dates'') ''dates'' = dict_del d ''dates''"
    by (induction d) auto
  have 2: "get_or (dict_del d ''dates'') ''dates'' (PDict []) = PDict []"
    by (simp add: get_or_def)
  show ?thesis
    using assms by (simp add: build_item_def Let_def 1 2 build_dates_falsy)
qed

lemma build_item_dates_not_mapping:
  assumes "dict_get d ''dates'' = Some v" "truthy v" "\<forall>kw. v \<noteq> PDict kw"
  shows "build_item vint fn (PDict d) = Inl TypeError"
  using assms by (cases v) (auto simp: build_item_def build_dates_def get_or_def bind_err_def)

lemma build_item_ignores_other_keys:
  assumes "k \<notin> set item_field_names"
  shows "build_item vint fn (PDict (dict_set d k v)) = build_item vint fn (PDict d)"
  using assms
  by (simp add: build_item_def item_field_names_def Let_def dict_del_set_other)

text \<open>
  C3, as the specification states it, fails: a key that is no named field is not placed into
  \<^verbatim>\<open>additional_data\<close>. The raw map \<^verbatim>\<open>{"buyer": "ACME"}\<close> materialises with an empty
  \<^verbatim>\<open>additional_data\<close>.
\<close>

theorem additional_data_counterexample:
  "build_item validate_opt_int ''plan.xlsx'' (PDict [(''buyer'', PStr ''ACME'')]) =
     Inr \<lparr>order_number = None, style = None, fabric = None, color = None, quantity = None,
          status = Some ''pending'', dates = Some empty_dates, source_file = Some ''plan.xlsx'',
          additional_data = Some [], fields_set = item_field_names\<rparr>"
  by (simp add: build_item_def build_dates_def get_or_def ProductionItemCreate_init_def
      bind_err_def)

text \<open>
  C3, amended. The record's \<^verbatim>\<open>additional_data\<close> is what the raw map holds under its
  own key \<^verbatim>\<open>additional_data\<close>: the empty mapping when the key is absent, None when it
  is null, the mapping itself otherwise (any other value fails construction). A key that is
  neither a named field nor \<^verbatim>\<open>dates\<close> nor \<^verbatim>\<open>additional_data\<close> has no effect on the
  record.
\<close>

theorem additional_data_passthrough:
  "(build_item vint fn (PDict d) = Inr r \<longrightarrow>
      (''additional_data'' \<notin> fst ` set d \<longrightarrow> additional_data r = Some []) \<and>
      (dict_get d ''additional_data'' = Some PNone \<longrightarrow> additional_data r = None) \<and>
      (\<forall>a. dict_get d ''additional_data'' = Some (PDict a) \<longrightarrow> additional_data r = Some a) \<and>
      (''additional_data'' \<notin> fst ` set d \<or> dict_get d ''additional_data'' = Some PNone \<or>
       (\<exists>a. dict_get d ''additional_data'' = Some (PDict a)))) \<and>
   (k \<notin> set item_field_names \<longrightarrow>
      build_item vint fn (PDict (dict_set d k v)) = build_item vint fn (PDict d))"
proof -
  have A: "(''additional_data'' \<notin> fst ` set d \<longrightarrow> additional_data r = Some []) \<and>
      (dict_get d ''additional_data'' = Some PNone \<longrightarrow> additional_data r = None) \<and>
      (\<forall>a. dict_get d ''additional_data'' = Some (PDict a) \<longrightarrow> additional_data r = Some a) \<and>
      (''additional_data'' \<notin> fst ` set d \<or> dict_get d ''additional_data'' = Some PNone \<or>
       (\<exists>a. dict_get d ''additional_data'' = Some (PDict a)))"
    if b: "build_item vint fn (PDict d) = Inr r"
  proof -
    have v: "validate_opt_dict (get_or d ''additional_data'' (PDict [])) = Inr (additional_data r)"
      using b by (rule build_item_Inr_additional)
    show ?thesis
    proof (cases "dict_get d ''additional_data''")
      case None
      with v show ?thesis by (auto simp: get_or_def simp flip: dict_get_None_iff)
    next
      case (Some x)
      with v show ?thesis by (cases x) (auto simp: get_or_def simp flip: dict_get_None_iff)
    qed
  qed
  have B: "k \<notin> set item_field_names \<longrightarrow>
      build_item vint fn (PDict (dict_set d k v)) = build_item vint fn (PDict d)"
    using build_item_ignores_other_keys by blast
  from A B show ?thesis by blast
qed

theorem additional_data_passthrough_witness:
  "build_item validate_opt_int ''plan.xlsx''
     (PDict [(''style'', PStr ''A1''), (''additional_data'', PDict [(''buyer'', PStr ''ACME'')])])
   = Inr \<lparr>order_number = None, style = Some ''A1'', fabric = None, color = None,
          quantity = None, status = Some ''pending'', dates = Some empty_dates,
          source_file = Some ''plan.xlsx'',
          additional_data = Some [(''buyer'', PStr ''ACME'')],
          fields_set = item_field_names\<rparr> \<and>
   ''buyer'' \<notin> set item_field_names \<and>
   build_item validate_opt_int ''plan.xlsx''
     (PDict (dict_set [(''style'', PStr ''A1'')] ''buyer'' (PStr ''ACME'')))
   = build_item validate_opt_int ''plan.xlsx'' (PDict [(''style'', PStr ''A1'')])"
proof -
  have b: "build_item validate_opt_int ''plan.xlsx''
     (PDict [(''style'', PStr ''A1''), (''additional_data'', PDict [(''buyer'', PStr ''ACME'')])])
   = Inr \<lparr>order_number = None, style = Some ''A1'', fabric = None, color = None,
          quantity = None, status = Some ''pending'', dates = Some empty_dates,
          source_file = Some ''plan.xlsx'',
          additional_data = Some [(''buyer'', PStr ''ACME'')],
          fields_set = item_field_names\<rparr>"
    by (simp add: build_item_def build_dates_def get_or_def ProductionItemCreate_init_def
        bind_err_def)
  have n: "''buyer'' \<notin> set item_field_names"
    by (simp add: item_field_names_def)
  from b n
    additional_data_passthrough [of validate_opt_int "''plan.xlsx''"
      "[(''style'', PStr ''A1'')]" _ "''buyer''" "PStr ''ACME''"]
  show ?thesis by blast
qed

text \<open>
  C4, as the specification states it, fails: a \<^verbatim>\<open>dates\<close> entry that is malformed is
  not replaced by empty dates. With \<^verbatim>\<open>"dates": "2024-01-01"\<close> (a string where a
  mapping is expected) construction fails and the record is skipped, although the same map
  without the entry materialises.
\<close>

theorem dates_malformed_counterexample:
  "build_item validate_opt_int ''plan.xlsx''
     (PDict [(''style'', PStr ''A1''), (''dates'', PStr ''2024-01-01'')]) = Inl TypeError \<and>
   materialize validate_opt_int ''plan.xlsx''
     [PDict [(''style'', PStr ''A1''), (''dates'', PStr ''2024-01-01'')]] = [] \<and>
   length (materialize validate_opt_int ''plan.xlsx'' [PDict [(''style'', PStr ''A1'')]]) = 1"
  by (simp add: build_item_def build_dates_def get_or_def ProductionItemCreate_init_def
      bind_err_def)

text \<open>
  C4, amended. When the \<^verbatim>\<open>dates\<close> entry is absent or has a false truth value (null,
  an empty mapping, an empty list or string, zero, false), the empty dates structure is
  substituted: the record is built exactly as from the map without the entry, and its dates
  are empty. A non-empty value that is not a mapping makes construction fail, so that the
  record is skipped.
\<close>

theorem dates_absent_or_falsy:
  "(''dates'' \<notin> fst ` set d \<or> (\<exists>v. dict_get d ''dates'' = Some v \<and> \<not> truthy v) \<longrightarrow>
      build_dates (get_or d ''dates'' (PDict [])) = Inr empty_dates \<and>
      build_item vint fn (PDict d) = build_item vint fn (PDict (dict_del d ''dates'')) \<and>
      (\<forall>r. build_item vint fn (PDict d) = Inr r \<longrightarrow> dates r = Some empty_dates)) \<and>
   (dict_get d ''dates'' = Some v \<and> truthy v \<and> (\<forall>kw. v \<noteq> PDict kw) \<longrightarrow>
      build_item vint fn (PDict d) = Inl TypeError)"
proof -
  have A: "build_dates (get_or d ''dates'' (PDict [])) = Inr empty_dates \<and>
      build_item vint fn (PDict d) = build_item vint fn (PDict (dict_del d ''dates'')) \<and>
      (\<forall>r. build_item vint fn (PDict d) = Inr r \<longrightarrow> dates r = Some empty_dates)"
    if h: "''dates'' \<notin> fst ` set d \<or> (\<exists>v. dict_get d ''dates'' = Some v \<and> \<not> truthy v)"
  proof -
    have "\<not> truthy (get_or d ''dates'' (PDict []))"
      using h by (auto simp: get_or_def simp flip: dict_get_None_iff)
    then have b: "build_dates (get_or d ''dates'' (PDict [])) = Inr empty_dates"
      by (rule build_dates_falsy)
    moreover have "build_item vint fn (PDict d) = build_item vint fn (PDict (dict_del d ''dates''))"
      using b by (rule build_item_dates_irrelevant)
    moreover have "\<forall>r. build_item vint fn (PDict d) = Inr r \<longrightarrow> dates r = Some empty_dates"
      using b build_item_Inr_dates by fastforce
    ultimately show ?thesis by blast
  qed
  have B: "dict_get d ''dates'' = Some v \<and> truthy v \<and> (\<forall>kw. v \<noteq> PDict kw) \<longrightarrow>
      build_item vint fn (PDict d) = Inl TypeError"
    using build_item_dates_not_mapping by blast
  from A B show ?thesis by blast
qed

theorem dates_absent_or_falsy_witness:
  "(\<exists>v. dict_get [(''style'', PStr ''A1''), (''dates'', PNone)] ''dates'' = Some v \<and> \<not> truthy v) \<and>
   build_item validate_opt_int ''plan.xlsx'' (PDict [(''style'', PStr ''A1''), (''dates'', PNone)])
   = Inr \<lparr>order_number = None, style = Some ''A1'', fabric = None, color = None,
          quantity = None, status = Some ''pending'', dates = Some empty_dates,
          source_file = Some ''plan.xlsx'', additional_data = Some [],
          fields_set = item_field_names\<rparr> \<and>
   truthy (PList [PInt 1]) \<and>
   build_item validate_opt_int ''plan.xlsx''
     (PDict [(''style'', PStr ''A1''), (''dates'', PList [PInt 1])]) = Inl TypeError"
proof -
  have h: "\<exists>v. dict_get [(''style'', PStr ''A1''), (''dates'', PNone)] ''dates'' = Some v \<and> \<not> truthy v"
    by simp
  have e: "build_item validate_opt_int ''plan.xlsx'' (PDict [(''style'', PStr ''A1'')])
   = Inr \<lparr>order_number = None, style = Some ''A1'', fabric = None, color = None,
          quantity = None, status = Some ''pending'', dates = Some empty_dates,
          source_file = Some ''plan.xlsx'', additional_data = Some [],
          fields_set = item_field_names\<rparr>"
    by (simp add: build_item_def build_dates_def get_or_def ProductionItemCreate_init_def
        bind_err_def)
  from h e
    dates_absent_or_falsy [of "[(''style'', PStr ''A1''), (''dates'', PNone)]"
      validate_opt_int "''plan.xlsx''"]
    dates_absent_or_falsy [of "[(''style'', PStr ''A1''), (''dates'', PList [PInt 1])]"
      validate_opt_int "''plan.xlsx''" "PList [PInt 1]"]
  show ?thesis by simp
qed

text \<open>
  C10. A raw map that holds \<^verbatim>\<open>status\<close> with an explicit null materialises with status
  None; the default \<^verbatim>\<open>"pending"\<close> is applied when the key is absent, and a record's
  status is \<^verbatim>\<open>"pending"\<close> only if the key is absent or the map itself says so.
\<close>

theorem status_explicit_null:
  assumes "build_item vint fn (PDict d) = Inr r"
  shows "(dict_get d ''status'' = Some PNone \<longrightarrow> status r = None) \<and>
         (''status'' \<notin> fst ` set d \<longrightarrow> status r = Some ''pending'') \<and>
         (status r = Some ''pending'' \<longrightarrow>
            ''status'' \<notin> fst ` set d \<or> dict_get d ''status'' = Some (PStr ''pending''))"
proof -
  have v: "validate_opt_str (get_or d ''status'' (PStr ''pending'')) = Inr (status r)"
    using assms by (rule build_item_Inr_status)
  show ?thesis
  proof (cases "dict_get d ''status''")
    case None
    with v show ?thesis by (auto simp: get_or_def simp flip: dict_get_None_iff)
  next
    case (Some x)
    with v show ?thesis by (cases x) (auto simp: get_or_def simp flip: dict_get_None_iff)
  qed
qed

theorem status_explicit_null_witness:
  "build_item validate_opt_int ''plan.xlsx'' (PDict [(''style'', PStr ''A1''), (''status'', PNone)])
   = Inr \<lparr>order_number = None, style = Some ''A1'', fabric = None, color = None,
          quantity = None, status = None, dates = Some empty_dates,
          source_file = Some ''plan.xlsx'', additional_data = Some [],
          fields_set = item_field_names\<rparr> \<and>
   dict_get [(''style'', PStr ''A1''), (''status'', PNone)] ''status'' = Some PNone \<and>
   status \<lparr>order_number = None, style = Some ''A1'', fabric = None, color = None,
          quantity = None, status = None, dates = Some empty_dates,
          source_file = Some ''plan.xlsx'', additional_data = Some [],
          fields_set = item_field_names\<rparr> = None"
proof -
  have b: "build_item validate_opt_int ''plan.xlsx''
     (PDict [(''style'', PStr ''A1''), (''status'', PNone)])
   = Inr \<lparr>order_number = None, style = Some ''A1'', fabric = None, color = None,
          quantity = None, status = None, dates = Some empty_dates,
          source_file = Some ''plan.xlsx'', additional_data = Some [],
          fields_set = item_field_names\<rparr>"
    by (simp add: build_item_def build_dates_def get_or_def ProductionItemCreate_init_def
        bind_err_def)
  from b status_explicit_null [OF b] show ?thesis by simp
qed

section \<open>Creating and looking up\<close>

text \<open>
  C9. For the empty list, \<^verbatim>\<open>create_many_production_items\<close> returns the empty list of
  identifiers and leaves the state as it was: no document is added, the clock is not read
  and no method of the collection is invoked.
\<close>

theorem create_many_empty:
  "create_many_production_items clk gen w [] = ([], w)"
  by (simp add: create_many_production_items_def)

text \<open>
  C7. For an identifier that is not in the store's format, that is, one that
  \<^verbatim>\<open>ObjectId\<close> refuses (not 24 characters, or not readable as pairs of hexadecimal
  digits), looking it up answers None and deleting it answers False, with the state
  untouched; these are the very answers given for an accepted identifier that no stored
  record has, so the caller cannot tell the two apart.
\<close>

theorem invalid_identifier_not_found:
  assumes "\<not> (length item_id = 24 \<and> fromhex item_id \<noteq> None)"
  shows "get_production_item w item_id = (None, w) \<and>
         delete_production_item w item_id = (False, w) \<and>
         (\<forall>other oid. ObjectId other = Inr oid \<and> \<not> list_ex (has_id oid) (docs w) \<longrightarrow>
            fst (get_production_item w other) = fst (get_production_item w item_id) \<and>
            fst (delete_production_item w other) = fst (delete_production_item w item_id))"
proof -
  have inv: "ObjectId item_id = Inl InvalidId"
    using assms by (auto simp: ObjectId_def split: option.splits)
  have g: "get_production_item w item_id = (None, w)"
    by (simp add: get_production_item_def inv)
  have d: "delete_production_item w item_id = (False, w)"
    by (simp add: delete_production_item_def inv)
  have "fst (get_production_item w other) = None \<and> \<not> fst (delete_production_item w other)"
    if "ObjectId other = Inr oid" "\<not> list_ex (has_id oid) (docs w)" for other oid
  proof -
    have "find (has_id oid) (docs w) = None"
      using that(2) by (simp add: find_None_iff list_ex_iff)
    then show ?thesis
      using that
      by (simp add: get_production_item_def delete_production_item_def find_one_def
          delete_one_def)
  qed
  with g d show ?thesis by simp
qed

lemma example_blank_id:
  "ObjectId ''00 00 00 00 00 00 00 00 '' = Inr (PObjectId ''0000000000000000'')"
  by (simp add: ObjectId_def is_hex_def is_space_def to_lower_def)

theorem invalid_identifier_not_found_witness:
  "\<not> (length ''not-an-id'' = 24 \<and> fromhex ''not-an-id'' \<noteq> None) \<and>
   get_production_item example_world ''not-an-id'' = (None, example_world) \<and>
   delete_production_item example_world ''not-an-id'' = (False, example_world) \<and>
   ObjectId ''00000000000000000000000c'' = Inr (PObjectId ''00000000000000000000000c'') \<and>
   fst (get_production_item example_world ''00000000000000000000000c'') = None \<and>
   fst (delete_production_item example_world ''00000000000000000000000c'') = False \<and>
   ObjectId ''00 00 00 00 00 00 00 00 '' = Inr (PObjectId ''0000000000000000'') \<and>
   fst (get_production_item example_world ''00 00 00 00 00 00 00 00 '') = None \<and>
   fst (delete_production_item example_world ''00 00 00 00 00 00 00 00 '') = False"
proof -
  have h: "\<not> (length ''not-an-id'' = 24 \<and> fromhex ''not-an-id'' \<noteq> None)"
    by simp
  have o: "ObjectId ''00000000000000000000000c'' = Inr (PObjectId ''00000000000000000000000c'')"
    by (simp add: ObjectId_def is_hex_def is_space_def to_lower_def)
  have n: "\<not> list_ex (has_id (PObjectId ''00000000000000000000000c'')) (docs example_world)"
    by (simp add: example_world_def example_doc1_def example_doc2_def has_id_def)
  have n': "\<not> list_ex (has_id (PObjectId ''0000000000000000'')) (docs example_world)"
    by (simp add: example_world_def example_doc1_def example_doc2_def has_id_def)
  from invalid_identifier_not_found [OF h, of example_world] o n n' example_blank_id h
  show ?thesis by auto
qed

section \<open>Queries\<close>

lemma get_production_items_Inr:
  assumes "get_production_items rx w skip limit sf stf orf = Inr ((items, n), w')"
  shows "n = int (length (filter (doc_matches rx (build_query sf stf orf)) (docs w))) \<and>
         items = map stringify_id (take (nat limit) (drop (nat skip)
                   (sort_desc (filter (doc_matches rx (build_query sf stf orf)) (docs w))))) \<and>
         list_all (\<lambda>kc. cond_accepted rx (snd kc)) (build_query sf stf orf)"
  using assms
  by (auto simp: get_production_items_def count_documents_def called_def Let_def
      split: if_splits sum.splits)

lemma get_production_items_returns:
  assumes "list_all (\<lambda>kc. cond_accepted rx (snd kc)) (build_query sf stf orf)"
    and "0 \<le> skip" "0 \<le> limit"
  shows "\<exists>items w'. get_production_items rx w skip limit sf stf orf =
           Inr ((items, int (length (filter (doc_matches rx (build_query sf stf orf)) (docs w)))),
                w')"
  using assms
  by (simp add: get_production_items_def count_documents_def Let_def)

text \<open>
  C5. For every stored record set, every combination of the style, status and order-number
  filters and every regular-expression engine of the store: whenever the query returns, its
  total is the number of stored records that satisfy the filter built from the three
  arguments, the page is cut out of exactly those records, and with the same filter the
  query returns the same total for every other skip and limit that are not negative. It
  does return whenever the store accepts the filter's patterns and skip and limit are not
  negative.
\<close>

theorem total_counts_matches:
  "(get_production_items rx w skip limit sf stf orf = Inr ((items, n), w') \<longrightarrow>
      n = int (length (filter (doc_matches rx (build_query sf stf orf)) (docs w))) \<and>
      items = map stringify_id (take (nat limit) (drop (nat skip)
                (sort_desc (filter (doc_matches rx (build_query sf stf orf)) (docs w))))) \<and>
      (\<forall>skip' limit'. 0 \<le> skip' \<and> 0 \<le> limit' \<longrightarrow>
         (\<exists>items' w''. get_production_items rx w skip' limit' sf stf orf
                          = Inr ((items', n), w''))) \<and>
      (\<forall>skip' limit' items' n' w''.
         get_production_items rx w skip' limit' sf stf orf = Inr ((items', n'), w'') \<longrightarrow>
         n' = n)) \<and>
   (list_all (\<lambda>kc. cond_accepted rx (snd kc)) (build_query sf stf orf) \<and>
    0 \<le> skip \<and> 0 \<le> limit \<longrightarrow>
      (\<exists>items1 w1. get_production_items rx w skip limit sf stf orf =
         Inr ((items1, int (length (filter (doc_matches rx (build_query sf stf orf)) (docs w)))),
              w1)))"
proof -
  let ?count = "int (length (filter (doc_matches rx (build_query sf stf orf)) (docs w)))"
  have A: "n = ?count \<and>
      items = map stringify_id (take (nat limit) (drop (nat skip)
                (sort_desc (filter (doc_matches rx (build_query sf stf orf)) (docs w))))) \<and>
      (\<forall>skip' limit'. 0 \<le> skip' \<and> 0 \<le> limit' \<longrightarrow>
         (\<exists>items' w''. get_production_items rx w skip' limit' sf stf orf
                          = Inr ((items', n), w''))) \<and>
      (\<forall>skip' limit' items' n' w''.
         get_production_items rx w skip' limit' sf stf orf = Inr ((items', n'), w'') \<longrightarrow>
         n' = n)"
    if r: "get_production_items rx w skip limit sf stf orf = Inr ((items, n), w')"
  proof -
    note 1 = get_production_items_Inr [OF r]
    have 2: "\<exists>items' w''. get_production_items rx w skip' limit' sf stf orf
                          = Inr ((items', n), w'')"
      if "0 \<le> skip' \<and> 0 \<le> limit'" for skip' limit'
      using get_production_items_returns [of rx sf stf orf skip' limit' w] 1 that by simp
    have 3: "n' = n"
      if "get_production_items rx w skip' limit' sf stf orf = Inr ((items', n'), w'')"
      for skip' limit' items' n' w''
      using get_production_items_Inr [OF that] 1 by simp
    from 1 2 3 show ?thesis by blast
  qed
  have B: "list_all (\<lambda>kc. cond_accepted rx (snd kc)) (build_query sf stf orf) \<and>
    0 \<le> skip \<and> 0 \<le> limit \<longrightarrow>
      (\<exists>items1 w1. get_production_items rx w skip limit sf stf orf
                      = Inr ((items1, ?count), w1))"
    using get_production_items_returns [of rx sf stf orf skip limit w] by blast
  from A B show ?thesis by blast
qed

lemma example_query_page1:
  "get_production_items example_engine example_world 0 1 None (Some ''pending'') (Some ''po-'') =
     Inr (([stringify_id example_doc1], 1),
          called ''find'' (called ''count_documents'' example_world))"
  by (simp add: get_production_items_def count_documents_def build_query_def example_world_def
      example_doc1_def example_doc2_def doc_matches_def example_engine_def simple_pattern_def
      is_meta_def called_def sort_desc_def created_key_def stringify_id_def char_matches_def
      to_lower_def)

lemma example_query_page2:
  "get_production_items example_engine example_world 1 5 None (Some ''pending'') (Some ''po-'') =
     Inr (([], 1), called ''find'' (called ''count_documents'' example_world))"
  by (simp add: get_production_items_def count_documents_def build_query_def example_world_def
      example_doc1_def example_doc2_def doc_matches_def example_engine_def simple_pattern_def
      is_meta_def called_def sort_desc_def created_key_def stringify_id_def char_matches_def
      to_lower_def)

theorem total_counts_matches_witness:
  "list_all (\<lambda>kc. cond_accepted example_engine (snd kc))
     (build_query None (Some ''pending'') (Some ''po-'')) \<and>
   get_production_items example_engine example_world 0 1 None (Some ''pending'') (Some ''po-'') =
     Inr (([stringify_id example_doc1], 1),
          called ''find'' (called ''count_documents'' example_world)) \<and>
   get_production_items example_engine example_world 1 5 None (Some ''pending'') (Some ''po-'') =
     Inr (([], 1), called ''find'' (called ''count_documents'' example_world)) \<and>
   (1::int) = int (length (filter
                 (doc_matches example_engine (build_query None (Some ''pending'') (Some ''po-'')))
                 (docs example_world)))"
proof -
  have p: "list_all (\<lambda>kc. cond_accepted example_engine (snd kc))
     (build_query None (Some ''pending'') (Some ''po-''))"
    by (simp add: build_query_def example_engine_def simple_pattern_def is_meta_def)
  from p example_query_page1 example_query_page2
    total_counts_matches [of example_engine example_world 0 1 None "Some ''pending''"
      "Some ''po-''" "[stringify_id example_doc1]" 1
      "called ''find'' (called ''count_documents'' example_world)"]
  show ?thesis by simp
qed

section \<open>What the filters select\<close>







section \<open>Timestamps\<close>

lemma store_ok_later: "store_ok now ds \<Longrightarrow> now \<le> now' \<Longrightarrow> store_ok now' ds"
proof -
  have "key_ge (Some now) k \<Longrightarrow> now \<le> now' \<Longrightarrow> key_ge (Some now') k" for k
    by (cases k) auto
  then show "store_ok now ds \<Longrightarrow> now \<le> now' \<Longrightarrow> store_ok now' ds"
    by (auto simp: store_ok_def list_all_iff)
qed

lemma store_ok_append:
  "store_ok now (ds @ es) \<longleftrightarrow> store_ok now ds \<and> store_ok now es"
  by (simp add: store_ok_def)

lemma stamped_ok:
  assumes "t1 \<le> t2" "t2 \<le> now"
  shows "store_ok now
     [dict_set (dict_set (dict_set d ''created_at'' (PDatetime t1)) ''updated_at'' (PDatetime t2))
        ''_id'' oid]"
  using assms by (simp add: store_ok_def timestamps_ok_def updated_key_def)

lemma create_production_item_docs:
  "docs (snd (create_production_item clk gen w item)) =
     docs w @ [dict_set (dict_set (dict_set (model_dump item)
        ''created_at'' (PDatetime (clk (clock_reads w))))
        ''updated_at'' (PDatetime (clk (Suc (clock_reads w)))))
        ''_id'' (PObjectId (gen (ids_made w)))]"
  by (simp add: create_production_item_def utcnow_def insert_one_def called_def Let_def)

lemma create_production_item_reads:
  "clock_reads (snd (create_production_item clk gen w item)) = Suc (Suc (clock_reads w))"
  by (simp add: create_production_item_def utcnow_def insert_one_def called_def Let_def)

lemma create_preserves:
  assumes "mono clk" "store_ok (clk (clock_reads w)) (docs w)"
  shows "store_ok (clk (clock_reads (snd (create_production_item clk gen w item))))
           (docs (snd (create_production_item clk gen w item)))"
proof -
  let ?n = "clock_reads w"
  have le: "clk ?n \<le> clk (Suc ?n)" "clk (Suc ?n) \<le> clk (Suc (Suc ?n))" "clk ?n \<le> clk (Suc (Suc ?n))"
    using assms(1) by (simp_all add: monoD)
  show ?thesis
    unfolding create_production_item_docs create_production_item_reads store_ok_append
    using store_ok_later [OF assms(2) le(3)] stamped_ok [OF le(1) le(2)] by simp
qed

lemma dump_items_reads:
  "clock_reads (snd (dump_items clk w items)) = clock_reads w + 2 * length items"
  by (induction items arbitrary: w) (simp_all add: utcnow_def split_beta Let_def)

lemma dump_items_docs: "docs (snd (dump_items clk w items)) = docs w"
  by (induction items arbitrary: w) (simp_all add: utcnow_def split_beta Let_def)

lemma dump_items_ids: "ids_made (snd (dump_items clk w items)) = ids_made w"
  by (induction items arbitrary: w) (simp_all add: utcnow_def split_beta Let_def)

lemma set_id_timestamps [simp]:
  "timestamps_ok (dict_set d ''_id'' v) = timestamps_ok d"
  "updated_key (dict_set d ''_id'' v) = updated_key d"
  by (simp_all add: timestamps_ok_def updated_key_def)

lemma assign_ids_ok:
  assumes "list_all (\<lambda>d. timestamps_ok d \<and> key_ge (Some now) (updated_key d)) ds"
  shows "store_ok now (map snd (assign_ids gen n ds))"
  using assms
proof (induction ds arbitrary: n)
  case Nil
  then show ?case by (simp add: store_ok_def)
next
  case (Cons d ds)
  then show ?case
    by (simp add: store_ok_def)
qed

lemma dump_items_stamped:
  assumes "mono clk"
  shows "list_all (\<lambda>d. timestamps_ok d \<and>
            key_ge (Some (clk (clock_reads w + 2 * length items))) (updated_key d))
           (fst (dump_items clk w items))"
proof (induction items arbitrary: w)
  case Nil
  then show ?case by simp
next
  case (Cons item items)
  let ?n = "clock_reads w"
  let ?w2 = "w\<lparr>clock_reads := Suc (Suc ?n)\<rparr>"
  have le: "clk ?n \<le> clk (Suc ?n)" "clk (Suc ?n) \<le> clk (?n + 2 * length (item # items))"
    using assms by (simp_all add: monoD)
  have "list_all (\<lambda>d. timestamps_ok d \<and>
            key_ge (Some (clk (clock_reads ?w2 + 2 * length items))) (updated_key d))
           (fst (dump_items clk ?w2 items))"
    by (rule Cons.IH)
  with le show ?case
    by (simp add: utcnow_def split_beta Let_def timestamps_ok_def updated_key_def)
qed

lemma create_many_preserves:
  assumes "mono clk" "store_ok (clk (clock_reads w)) (docs w)"
  shows "store_ok (clk (clock_reads (snd (create_many_production_items clk gen w items))))
           (docs (snd (create_many_production_items clk gen w items)))"
proof -
  let ?r = "dump_items clk w items"
  have le: "clk (clock_reads w) \<le> clk (clock_reads w + 2 * length items)"
    using assms(1) by (simp add: monoD)
  have old: "store_ok (clk (clock_reads w + 2 * length items)) (docs w)"
    using store_ok_later [OF assms(2) le] .
  have new: "store_ok (clk (clock_reads w + 2 * length items))
               (map snd (assign_ids gen (ids_made w) (fst ?r)))"
    using dump_items_stamped [OF assms(1)] by (rule assign_ids_ok)
  show ?thesis
    using old new
    by (simp add: create_many_production_items_def split_beta Let_def insert_many_def called_def
        dump_items_reads dump_items_docs dump_items_ids store_ok_append)
qed

lemma set_fields_other:
  "k \<notin> fst ` set upd \<Longrightarrow> dict_get (set_fields d upd) k = dict_get d k"
  by (induction upd arbitrary: d) auto

lemma set_fields_last:
  "dict_get (set_fields d (upd @ [(k, v)])) k = Some v"
  by (induction upd arbitrary: d) auto

lemma set_fields_distinct:
  "distinct (map fst upd) \<Longrightarrow> dict_get upd k = Some v \<Longrightarrow>
   dict_get (set_fields d upd) k = Some v"
proof (induction upd arbitrary: d)
  case Nil
  then show ?case by simp
next
  case (Cons a upd)
  obtain k' v' where a: "a = (k', v')" by (cases a)
  show ?case
  proof (cases "k' = k")
    case True
    with Cons.prems a have "k \<notin> fst ` set upd" "v' = v" by auto
    with True a show ?thesis by (simp add: set_fields_other)
  next
    case False
    with Cons a show ?thesis by simp
  qed
qed

lemma dict_set_keys: "fst ` set (dict_set d k v) = insert k (fst ` set d)"
proof (induction d)
  case Nil
  show ?case by simp
next
  case (Cons a d)
  obtain k' v' where "a = (k', v')" by (cases a)
  with Cons show ?case by (cases "k' = k") auto
qed

lemma dict_set_distinct: "distinct (map fst d) \<Longrightarrow> distinct (map fst (dict_set d k v))"
  by (induction d) (auto simp: dict_set_keys)

lemma find_Some_mem: "find P xs = Some x \<Longrightarrow> x \<in> set xs"
  by (induction xs) (auto split: if_splits)

lemma replace_first_all:
  "list_all P xs \<Longrightarrow> P y \<Longrightarrow> list_all P (replace_first Q y xs)"
  by (induction xs) auto

lemma replace_first_rel:
  "find Q xs = Some x \<Longrightarrow> R x y \<Longrightarrow> (\<And>z. R z z) \<Longrightarrow> list_all2 R xs (replace_first Q y xs)"
  by (induction xs) (auto simp: list_all2_same split: if_splits)

lemma remove_first_all: "list_all P xs \<Longrightarrow> list_all P (remove_first Q xs)"
  by (induction xs) auto

lemma key_ge_refl: "key_ge k k"
  by (cases k) auto

lemma timestamps_okD:
  assumes "timestamps_ok d"
  shows "\<exists>c u. dict_get d ''created_at'' = Some (PDatetime c) \<and>
           dict_get d ''updated_at'' = Some (PDatetime u) \<and> c \<le> u"
proof -
  obtain a where a: "dict_get d ''created_at'' = Some a"
    using assms by (cases "dict_get d ''created_at''") (simp_all add: timestamps_ok_def)
  obtain c where c: "a = PDatetime c"
    using assms a by (cases a) (simp_all add: timestamps_ok_def)
  obtain b where b: "dict_get d ''updated_at'' = Some b"
    using assms a c by (cases "dict_get d ''updated_at''") (simp_all add: timestamps_ok_def)
  obtain u where u: "b = PDatetime u"
    using assms a c b by (cases b) (simp_all add: timestamps_ok_def)
  from assms a b c u have "c \<le> u" by (simp add: timestamps_ok_def)
  with a b c u show ?thesis by blast
qed

text \<open>What the update stores in the document it finds.\<close>

lemma updated_doc:
  assumes "distinct (map fst upd)" "''created_at'' \<notin> fst ` set upd"
    and "timestamps_ok d" "key_ge (Some now) (updated_key d)" "now \<le> t" "t \<le> later"
  shows "timestamps_ok (set_fields d (dict_set upd ''updated_at'' (PDatetime t))) \<and>
         key_ge (Some later) (updated_key (set_fields d (dict_set upd ''updated_at'' (PDatetime t)))) \<and>
         key_ge (updated_key (set_fields d (dict_set upd ''updated_at'' (PDatetime t)))) (updated_key d)"
proof -
  let ?u = "dict_set upd ''updated_at'' (PDatetime t)"
  have c: "dict_get (set_fields d ?u) ''created_at'' = dict_get d ''created_at''"
    using assms(2) by (simp add: set_fields_other dict_set_keys)
  have u: "dict_get (set_fields d ?u) ''updated_at'' = Some (PDatetime t)"
    using assms(1) by (simp add: set_fields_distinct dict_set_distinct)
  from assms(3) obtain c0 u0 where
    d: "dict_get d ''created_at'' = Some (PDatetime c0)" "dict_get d ''updated_at'' = Some (PDatetime u0)"
       "c0 \<le> u0"
    using timestamps_okD by blast
  with assms(4) have "u0 \<le> now" by (simp add: updated_key_def)
  with d assms(5,6) c u show ?thesis
    by (simp add: timestamps_ok_def updated_key_def)
qed

lemma update_production_item_reads:
  "clock_reads (snd (update_production_item clk w item_id upd)) = Suc (clock_reads w)"
proof (cases "ObjectId item_id")
  case (Inl e)
  then show ?thesis by (simp add: update_production_item_def utcnow_def)
next
  case (Inr oid)
  show ?thesis
  proof (cases "find (has_id oid) (docs w)")
    case None
    with Inr show ?thesis
      by (simp add: update_production_item_def utcnow_def update_one_def called_def)
  next
    case (Some d)
    with Inr show ?thesis
      by (simp add: update_production_item_def utcnow_def update_one_def called_def Let_def)
  qed
qed

lemma update_production_item_docs:
  "docs (snd (update_production_item clk w item_id upd)) = docs w \<or>
   (\<exists>oid d. find (has_id oid) (docs w) = Some d \<and>
      docs (snd (update_production_item clk w item_id upd)) =
        replace_first (has_id oid)
          (set_fields d (dict_set upd ''updated_at'' (PDatetime (clk (clock_reads w))))) (docs w))"
proof (cases "ObjectId item_id")
  case (Inl e)
  then show ?thesis by (simp add: update_production_item_def utcnow_def)
next
  case (Inr oid)
  show ?thesis
  proof (cases "find (has_id oid) (docs w)")
    case None
    with Inr show ?thesis
      by (simp add: update_production_item_def utcnow_def update_one_def called_def)
  next
    case (Some d)
    let ?d' = "set_fields d (dict_set upd ''updated_at'' (PDatetime (clk (clock_reads w))))"
    show ?thesis
    proof (cases "dict_get ?d' ''_id'' = Some oid")
      case True
      with Inr Some have "docs (snd (update_production_item clk w item_id upd)) =
          replace_first (has_id oid) ?d' (docs w)"
        by (simp add: update_production_item_def utcnow_def update_one_def called_def Let_def)
      with Some show ?thesis by blast
    next
      case False
      with Inr Some have "docs (snd (update_production_item clk w item_id upd)) = docs w"
        by (simp add: update_production_item_def utcnow_def update_one_def called_def Let_def)
      then show ?thesis by blast
    qed
  qed
qed

lemma update_preserves:
  assumes "mono clk" "store_ok (clk (clock_reads w)) (docs w)"
    and "distinct (map fst upd)" "''created_at'' \<notin> fst ` set upd"
  shows "store_ok (clk (clock_reads (snd (update_production_item clk w item_id upd))))
           (docs (snd (update_production_item clk w item_id upd))) \<and>
         list_all2 (\<lambda>d d'. key_ge (updated_key d') (updated_key d)) (docs w)
           (docs (snd (update_production_item clk w item_id upd)))"
proof -
  let ?n = "clock_reads w"
  let ?w' = "snd (update_production_item clk w item_id upd)"
  have le: "clk ?n \<le> clk (Suc ?n)" using assms(1) by (simp add: monoD)
  have old: "store_ok (clk (Suc ?n)) (docs w)"
    using store_ok_later [OF assms(2) le] .
  from update_production_item_docs [of clk w item_id upd]
  show ?thesis
  proof
    assume "docs ?w' = docs w"
    with old show ?thesis
      by (simp add: update_production_item_reads list_all2_same key_ge_refl)
  next
    assume "\<exists>oid d. find (has_id oid) (docs w) = Some d \<and>
      docs ?w' = replace_first (has_id oid)
          (set_fields d (dict_set upd ''updated_at'' (PDatetime (clk ?n)))) (docs w)"
    then obtain oid d where f: "find (has_id oid) (docs w) = Some d"
      and dw: "docs ?w' = replace_first (has_id oid)
          (set_fields d (dict_set upd ''updated_at'' (PDatetime (clk ?n)))) (docs w)"
      by blast
    let ?d' = "set_fields d (dict_set upd ''updated_at'' (PDatetime (clk ?n)))"
    from f have "d \<in> set (docs w)" by (rule find_Some_mem)
    with assms(2) have dok: "timestamps_ok d" "key_ge (Some (clk ?n)) (updated_key d)"
      by (auto simp: store_ok_def list_all_iff)
    have new: "timestamps_ok ?d' \<and> key_ge (Some (clk (Suc ?n))) (updated_key ?d') \<and>
               key_ge (updated_key ?d') (updated_key d)"
      using updated_doc [OF assms(3,4) dok _ le] by simp
    have 1: "store_ok (clk (Suc ?n)) (docs ?w')"
      unfolding dw store_ok_def
      using old new by (intro replace_first_all) (simp_all add: store_ok_def)
    have 2: "list_all2 (\<lambda>d d'. key_ge (updated_key d') (updated_key d)) (docs w) (docs ?w')"
      unfolding dw using f new by (intro replace_first_rel [where x = d]) (simp_all add: key_ge_refl)
    from 1 2 show ?thesis by (simp add: update_production_item_reads)
  qed
qed

lemma update_never_regresses:
  assumes "mono clk" "store_ok (clk (clock_reads w)) (docs w)" "distinct (map fst upd)"
  shows "list_all2 (\<lambda>d d'. key_ge (updated_key d') (updated_key d)) (docs w)
           (docs (snd (update_production_item clk w item_id upd)))"
proof -
  let ?n = "clock_reads w"
  let ?w' = "snd (update_production_item clk w item_id upd)"
  from update_production_item_docs [of clk w item_id upd]
  show ?thesis
  proof
    assume "docs ?w' = docs w"
    then show ?thesis by (simp add: list_all2_same key_ge_refl)
  next
    assume "\<exists>oid d. find (has_id oid) (docs w) = Some d \<and>
      docs ?w' = replace_first (has_id oid)
          (set_fields d (dict_set upd ''updated_at'' (PDatetime (clk ?n)))) (docs w)"
    then obtain oid d where f: "find (has_id oid) (docs w) = Some d"
      and dw: "docs ?w' = replace_first (has_id oid)
          (set_fields d (dict_set upd ''updated_at'' (PDatetime (clk ?n)))) (docs w)"
      by blast
    let ?d' = "set_fields d (dict_set upd ''updated_at'' (PDatetime (clk ?n)))"
    have "dict_get ?d' ''updated_at'' = Some (PDatetime (clk ?n))"
      using assms(3) by (simp add: set_fields_distinct dict_set_distinct)
    then have u: "updated_key ?d' = Some (clk ?n)"
      by (simp add: updated_key_def)
    from f have "d \<in> set (docs w)" by (rule find_Some_mem)
    with assms(2) have "key_ge (Some (clk ?n)) (updated_key d)"
      by (auto simp: store_ok_def list_all_iff)
    with u have new: "key_ge (updated_key ?d') (updated_key d)" by simp
    show ?thesis
      unfolding dw using f new by (intro replace_first_rel [where x = d]) (simp_all add: key_ge_refl)
  qed
qed

lemma delete_preserves:
  assumes "store_ok (clk (clock_reads w)) (docs w)"
  shows "store_ok (clk (clock_reads (snd (delete_production_item w item_id))))
           (docs (snd (delete_production_item w item_id)))"
proof (cases "ObjectId item_id")
  case (Inl e)
  with assms show ?thesis by (simp add: delete_production_item_def)
next
  case (Inr oid)
  with assms show ?thesis
    by (simp add: delete_production_item_def delete_one_def called_def store_ok_def
        remove_first_all)
qed

lemma delete_all_preserves:
  "store_ok now (docs (snd (delete_all_production_items w)))"
  by (simp add: delete_all_production_items_def delete_many_all_def called_def store_ok_def)

lemma example_clock_mono: "mono example_clock"
  by (rule monoI) (simp add: example_clock_def)

lemma example_world_ok: "store_ok (example_clock (clock_reads example_world)) (docs example_world)"
  by (simp add: store_ok_def timestamps_ok_def updated_key_def example_world_def
      example_doc1_def example_doc2_def example_clock_def)

text \<open>
  C8, as the specification states it, fails: not every update keeps
  \<^verbatim>\<open>updated_at >= created_at\<close>. The partial fields of an update are stored as they are
  given, \<^verbatim>\<open>created_at\<close> included: on a record with both timestamps 10, the update
  \<^verbatim>\<open>{"created_at": 5000}\<close> made when the clock reads 1000 is applied and leaves
  \<^verbatim>\<open>created_at\<close> 5000 above \<^verbatim>\<open>updated_at\<close> 1000.
\<close>

theorem update_created_at_counterexample:
  "timestamps_ok example_doc1 \<and>
   update_production_item example_clock example_world ''00000000000000000000000a''
       [(''created_at'', PDatetime 5000)] =
     (True,
      \<lparr>docs = [[(''order_number'', PStr ''PO-17''), (''style'', PStr ''Classic-Fit''),
                (''status'', PStr ''pending''), (''created_at'', PDatetime 5000),
                (''updated_at'', PDatetime 1000),
                (''_id'', PObjectId ''00000000000000000000000a'')],
               example_doc2],
       clock_reads = 1, ids_made = 0, calls = [''update_one'']\<rparr>) \<and>
   \<not> timestamps_ok [(''order_number'', PStr ''PO-17''), (''style'', PStr ''Classic-Fit''),
                (''status'', PStr ''pending''), (''created_at'', PDatetime 5000),
                (''updated_at'', PDatetime 1000),
                (''_id'', PObjectId ''00000000000000000000000a'')]"
  by (simp add: update_production_item_def utcnow_def ObjectId_def is_hex_def is_space_def
      to_lower_def
      update_one_def called_def has_id_def example_world_def example_doc1_def example_doc2_def
      example_clock_def timestamps_ok_def)

text \<open>
  C8, amended. Let the clock never go back, and let every stored record have
  \<^verbatim>\<open>updated_at >= created_at\<close> and an \<^verbatim>\<open>updated_at\<close> that is not later than the
  clock. Then creating a record stores it with \<^verbatim>\<open>created_at\<close> the first and
  \<^verbatim>\<open>updated_at\<close> the second reading of the clock, so in order, and creating one record,
  creating many, deleting one and deleting all keep the property of the store. An update
  whose partial fields do not assign \<^verbatim>\<open>created_at\<close> keeps it too, and under such an
  update no record's \<^verbatim>\<open>updated_at\<close> becomes smaller; indeed under no update,
  whatever fields it assigns, does a record's \<^verbatim>\<open>updated_at\<close> become smaller.
\<close>

theorem timestamps_preserved:
  assumes "mono clk" "store_ok (clk (clock_reads w)) (docs w)"
  shows "(\<exists>d. docs (snd (create_production_item clk gen w item)) = docs w @ [d] \<and>
              dict_get d ''created_at'' = Some (PDatetime (clk (clock_reads w))) \<and>
              dict_get d ''updated_at'' = Some (PDatetime (clk (Suc (clock_reads w)))) \<and>
              timestamps_ok d) \<and>
         store_ok (clk (clock_reads (snd (create_production_item clk gen w item))))
           (docs (snd (create_production_item clk gen w item))) \<and>
         store_ok (clk (clock_reads (snd (create_many_production_items clk gen w items))))
           (docs (snd (create_many_production_items clk gen w items))) \<and>
         (distinct (map fst upd) \<and> ''created_at'' \<notin> fst ` set upd \<longrightarrow>
            store_ok (clk (clock_reads (snd (update_production_item clk w item_id upd))))
              (docs (snd (update_production_item clk w item_id upd))) \<and>
            list_all2 (\<lambda>d d'. key_ge (updated_key d') (updated_key d)) (docs w)
              (docs (snd (update_production_item clk w item_id upd)))) \<and>
         (distinct (map fst upd) \<longrightarrow>
            list_all2 (\<lambda>d d'. key_ge (updated_key d') (updated_key d)) (docs w)
              (docs (snd (update_production_item clk w item_id upd)))) \<and>
         store_ok (clk (clock_reads (snd (delete_production_item w item_id))))
           (docs (snd (delete_production_item w item_id))) \<and>
         store_ok (clk (clock_reads (snd (delete_all_production_items w))))
           (docs (snd (delete_all_production_items w)))"
proof -
  have le: "clk (clock_reads w) \<le> clk (Suc (clock_reads w))"
    using assms(1) by (simp add: monoD)
  have 1: "\<exists>d. docs (snd (create_production_item clk gen w item)) = docs w @ [d] \<and>
              dict_get d ''created_at'' = Some (PDatetime (clk (clock_reads w))) \<and>
              dict_get d ''updated_at'' = Some (PDatetime (clk (Suc (clock_reads w)))) \<and>
              timestamps_ok d"
    using le by (simp add: create_production_item_docs timestamps_ok_def)
  have 2: "store_ok (clk (clock_reads (snd (create_production_item clk gen w item))))
           (docs (snd (create_production_item clk gen w item)))"
    using assms by (rule create_preserves)
  have 3: "store_ok (clk (clock_reads (snd (create_many_production_items clk gen w items))))
           (docs (snd (create_many_production_items clk gen w items)))"
    using assms by (rule create_many_preserves)
  have 4: "distinct (map fst upd) \<and> ''created_at'' \<notin> fst ` set upd \<longrightarrow>
            store_ok (clk (clock_reads (snd (update_production_item clk w item_id upd))))
              (docs (snd (update_production_item clk w item_id upd))) \<and>
            list_all2 (\<lambda>d d'. key_ge (updated_key d') (updated_key d)) (docs w)
              (docs (snd (update_production_item clk w item_id upd)))"
    using update_preserves [OF assms] by blast
  have 5: "store_ok (clk (clock_reads (snd (delete_production_item w item_id))))
           (docs (snd (delete_production_item w item_id)))"
    using assms(2) by (rule delete_preserves)
  have 6: "store_ok (clk (clock_reads (snd (delete_all_production_items w))))
           (docs (snd (delete_all_production_items w)))"
    by (rule delete_all_preserves)
  have 7: "distinct (map fst upd) \<longrightarrow>
            list_all2 (\<lambda>d d'. key_ge (updated_key d') (updated_key d)) (docs w)
              (docs (snd (update_production_item clk w item_id upd)))"
    using update_never_regresses [OF assms] by blast
  from 1 2 3 4 5 6 7 show ?thesis by blast
qed

theorem timestamps_preserved_witness:
  "mono example_clock \<and>
   store_ok (example_clock (clock_reads example_world)) (docs example_world) \<and>
   distinct (map fst [(''status'', PStr ''completed'')]) \<and>
   ''created_at'' \<notin> fst ` set [(''status'', PStr ''completed'')] \<and>
   fst (update_production_item example_clock example_world ''00000000000000000000000a''
          [(''status'', PStr ''completed'')]) \<and>
   store_ok (example_clock (clock_reads
       (snd (update_production_item example_clock example_world ''00000000000000000000000a''
               [(''status'', PStr ''completed'')]))))
     (docs (snd (update_production_item example_clock example_world ''00000000000000000000000a''
               [(''status'', PStr ''completed'')]))) \<and>
   store_ok (example_clock (clock_reads
       (snd (create_many_production_items example_clock example_gen example_world []))))
     (docs (snd (create_many_production_items example_clock example_gen example_world [])))"
proof -
  have u: "fst (update_production_item example_clock example_world ''00000000000000000000000a''
          [(''status'', PStr ''completed'')])"
    by (simp add: update_production_item_def utcnow_def ObjectId_def is_hex_def is_space_def
      to_lower_def
        update_one_def called_def has_id_def example_world_def example_doc1_def example_doc2_def
        example_clock_def)
  have k: "distinct (map fst [(''status'', PStr ''completed'')]) \<and>
           ''created_at'' \<notin> fst ` set [(''status'', PStr ''completed'')]"
    by simp
  from u k example_clock_mono example_world_ok
    timestamps_preserved [OF example_clock_mono example_world_ok,
      where upd = "[(''status'', PStr ''completed'')]" and item_id = "''00000000000000000000000a''"
        and gen = example_gen and items = "[]"]
  show ?thesis by blast
qed

end
